theory Spec2Isabelle
  imports Main "HOL-Library.Word"
begin

section \<open>Python and ctypes values\<close>

text \<open>
  The binding marshals Python values into ctypes objects and hands them to the vendor
  library. A Python \<open>bytes\<close> object is a list of bytes, a Python \<open>str\<close> a list of
  code points, a Python \<open>float\<close> the 64 bits of an IEEE 754 double, a Python \<open>int\<close>
  an unbounded integer.
\<close>

type_synonym byte = "8 word"
type_synonym pystr = "nat list"
type_synonym pyfloat = "64 word"

datatype pyval =
    PyNone
  | PyBool bool
  | PyInt int
  | PyFloat pyfloat
  | PyStr pystr

text \<open>
  The exceptions. The first group is raised by the Python and ctypes primitives the
  binding uses; the second group is the error taxonomy of the specification (section 7),
  for which the binding has no raise statement.
\<close>

datatype error =
    ValueError
  | UnicodeEncodeError
  | UnicodeDecodeError
  | NotInitialized
  | NotConnected
  | DriverStartFailure
  | ConnectionFailure
  | UnsupportedForVariant
  | DriverError

type_synonym 'a result = "error + 'a"

subsection \<open>UTF-8\<close>

definition surrogate :: "nat \<Rightarrow> bool" where
  "surrogate cp = (55296 \<le> cp \<and> cp < 57344)"

definition byte_of :: "nat \<Rightarrow> byte" where
  "byte_of n = of_nat n"

definition str_cons :: "'a \<Rightarrow> 'a list result \<Rightarrow> 'a list result" where
  "str_cons x r = (case r of Inl e \<Rightarrow> Inl e | Inr xs \<Rightarrow> Inr (x # xs))"

definition bytes_append :: "byte list \<Rightarrow> byte list result \<Rightarrow> byte list result" where
  "bytes_append bs r = (case r of Inl e \<Rightarrow> Inl e | Inr xs \<Rightarrow> Inr (bs @ xs))"

text \<open>\<^verbatim>\<open>s.encode("utf-8")\<close>: a surrogate code point raises UnicodeEncodeError.\<close>

fun utf8_encode :: "pystr \<Rightarrow> byte list result" where
  "utf8_encode [] = Inr []"
| "utf8_encode (cp # cs) =
     (if cp < 128 then bytes_append [byte_of cp] (utf8_encode cs)
      else if cp < 2048 then
        bytes_append [byte_of (192 + cp div 64), byte_of (128 + cp mod 64)] (utf8_encode cs)
      else if cp < 65536 then
        (if surrogate cp then Inl UnicodeEncodeError
         else bytes_append
           [byte_of (224 + cp div 4096), byte_of (128 + cp div 64 mod 64),
            byte_of (128 + cp mod 64)] (utf8_encode cs))
      else if cp < 1114112 then
        bytes_append
          [byte_of (240 + cp div 262144), byte_of (128 + cp div 4096 mod 64),
           byte_of (128 + cp div 64 mod 64), byte_of (128 + cp mod 64)] (utf8_encode cs)
      else Inl UnicodeEncodeError)"

text \<open>
  \<^verbatim>\<open>b.decode("utf-8")\<close>, the strict decoder: \<open>need\<close> continuation bytes are still
  expected for the code point accumulated in \<open>acc\<close>, which must not be below \<open>lo\<close>
  (an overlong form), a surrogate, or beyond U+10FFFF.
\<close>

fun utf8_dec :: "nat \<Rightarrow> nat \<Rightarrow> nat \<Rightarrow> byte list \<Rightarrow> pystr result" where
  "utf8_dec need acc lo [] = (if need = 0 then Inr [] else Inl UnicodeDecodeError)"
| "utf8_dec need acc lo (b # bs) =
     (if need = 0 then
        (if unat b < 128 then str_cons (unat b) (utf8_dec 0 0 0 bs)
         else if 192 \<le> unat b \<and> unat b < 224 then utf8_dec 1 (unat b - 192) 128 bs
         else if 224 \<le> unat b \<and> unat b < 240 then utf8_dec 2 (unat b - 224) 2048 bs
         else if 240 \<le> unat b \<and> unat b < 248 then utf8_dec 3 (unat b - 240) 65536 bs
         else Inl UnicodeDecodeError)
      else if 128 \<le> unat b \<and> unat b < 192 then
        (if need = 1 then
           (if lo \<le> acc * 64 + (unat b - 128) \<and> acc * 64 + (unat b - 128) < 1114112
               \<and> \<not> surrogate (acc * 64 + (unat b - 128))
            then str_cons (acc * 64 + (unat b - 128)) (utf8_dec 0 0 0 bs)
            else Inl UnicodeDecodeError)
         else utf8_dec (need - 1) (acc * 64 + (unat b - 128)) lo bs)
      else Inl UnicodeDecodeError)"

definition utf8_decode :: "byte list \<Rightarrow> pystr result" where
  "utf8_decode bs = utf8_dec 0 0 0 bs"

subsection \<open>ctypes integers and character buffers\<close>

text \<open>
  \<^verbatim>\<open>ctypes.c_int(n)\<close> keeps the low 32 bits of \<open>n\<close> (ctypes checks no overflow) and
  \<^verbatim>\<open>.value\<close> reads them as a signed integer; \<^verbatim>\<open>ctypes.c_int()\<close> holds zero.
\<close>

definition c_int :: "int \<Rightarrow> 32 word" where
  "c_int n = of_int n"

definition c_int_value :: "32 word \<Rightarrow> int" where
  "c_int_value w = sint w"

definition c_uint16 :: "int \<Rightarrow> 16 word" where
  "c_uint16 n = of_int n"

definition c_uint16_value :: "16 word \<Rightarrow> int" where
  "c_uint16_value w = uint w"

text \<open>
  The \<^verbatim>\<open>.value\<close> of a \<^verbatim>\<open>c_char_p\<close> and of a character array: the bytes before the
  first NUL.
\<close>

definition c_string_value :: "byte list \<Rightarrow> byte list" where
  "c_string_value bs = takeWhile (\<lambda>b. b \<noteq> 0) bs"

text \<open>
  \<^verbatim>\<open>ctypes.create_string_buffer(length)\<close>: \<open>length\<close> zero bytes; a negative length
  raises ValueError.
\<close>

definition create_string_buffer :: "int \<Rightarrow> byte list result" where
  "create_string_buffer n = (if n < 0 then Inl ValueError else Inr (replicate (nat n) 0))"

subsection \<open>ctypes floats\<close>

text \<open>
  A \<^verbatim>\<open>c_float\<close> holds the 32 bits of an IEEE 754 single. \<^verbatim>\<open>ctypes.c_float(x)\<close>
  stores the C conversion of the double \<open>x\<close> to \<open>float\<close> (round to nearest, ties to
  even); \<^verbatim>\<open>.value\<close> widens the single to a double, which is exact. Both are written
  on the sign, exponent and fraction fields.
\<close>

definition f64_sign :: "pyfloat \<Rightarrow> nat" where
  "f64_sign d = unat d div 2 ^ 63"

definition f64_exp :: "pyfloat \<Rightarrow> nat" where
  "f64_exp d = unat d div 2 ^ 52 mod 2 ^ 11"

definition f64_frac :: "pyfloat \<Rightarrow> nat" where
  "f64_frac d = unat d mod 2 ^ 52"

definition mk_f64 :: "nat \<Rightarrow> nat \<Rightarrow> nat \<Rightarrow> pyfloat" where
  "mk_f64 s e f = of_nat (s * 2 ^ 63 + e * 2 ^ 52 + f)"

definition f32_sign :: "32 word \<Rightarrow> nat" where
  "f32_sign w = unat w div 2 ^ 31"

definition f32_exp :: "32 word \<Rightarrow> nat" where
  "f32_exp w = unat w div 2 ^ 23 mod 2 ^ 8"

definition f32_frac :: "32 word \<Rightarrow> nat" where
  "f32_frac w = unat w mod 2 ^ 23"

definition mk_f32 :: "nat \<Rightarrow> nat \<Rightarrow> nat \<Rightarrow> 32 word" where
  "mk_f32 s e f = of_nat (s * 2 ^ 31 + e * 2 ^ 23 + f)"

definition f32_is_nan :: "32 word \<Rightarrow> bool" where
  "f32_is_nan w = (f32_exp w = 255 \<and> f32_frac w \<noteq> 0)"

text \<open>\<open>m / 2 ^ k\<close> rounded to the nearest integer, ties to the even one.\<close>

definition round_shift :: "nat \<Rightarrow> nat \<Rightarrow> nat" where
  "round_shift m k =
     (if 2 ^ k < 2 * (m mod 2 ^ k) \<or> (2 * (m mod 2 ^ k) = 2 ^ k \<and> odd (m div 2 ^ k))
      then m div 2 ^ k + 1 else m div 2 ^ k)"

text \<open>The position of the highest set bit.\<close>

fun top_bit :: "nat \<Rightarrow> nat" where
  "top_bit n = (if n < 2 then 0 else Suc (top_bit (n div 2)))"

declare top_bit.simps [simp del]

text \<open>
  \<^verbatim>\<open>ctypes.c_float(x)\<close>. A NaN stays a NaN (quiet, with the high bits of its payload);
  a double below the single range becomes a subnormal single or zero, one above it
  becomes an infinity.
\<close>

definition c_float :: "pyfloat \<Rightarrow> 32 word" where
  "c_float d =
     (if f64_exp d = 2047 then
        (if f64_frac d = 0 then mk_f32 (f64_sign d) 255 0
         else mk_f32 (f64_sign d) 255 (2 ^ 22 + f64_frac d div 2 ^ 29 mod 2 ^ 22))
      else if f64_exp d = 0 then mk_f32 (f64_sign d) 0 0
      else if 896 < f64_exp d then
        (if 255 * 2 ^ 23 \<le> round_shift ((f64_exp d - 896) * 2 ^ 52 + f64_frac d) 29
         then mk_f32 (f64_sign d) 255 0
         else mk_f32 (f64_sign d) 0
                (round_shift ((f64_exp d - 896) * 2 ^ 52 + f64_frac d) 29))
      else mk_f32 (f64_sign d) 0 (round_shift (2 ^ 52 + f64_frac d) (926 - f64_exp d)))"

text \<open>\<^verbatim>\<open>.value\<close> of a \<^verbatim>\<open>c_float\<close>.\<close>

definition c_float_value :: "32 word \<Rightarrow> pyfloat" where
  "c_float_value w =
     (if f32_exp w = 255 then
        (if f32_frac w = 0 then mk_f64 (f32_sign w) 2047 0
         else mk_f64 (f32_sign w) 2047 ((2 ^ 22 + f32_frac w mod 2 ^ 22) * 2 ^ 29))
      else if f32_exp w = 0 then
        (if f32_frac w = 0 then mk_f64 (f32_sign w) 0 0
         else mk_f64 (f32_sign w) (top_bit (f32_frac w) + 874)
                ((f32_frac w - 2 ^ top_bit (f32_frac w)) * 2 ^ (52 - top_bit (f32_frac w))))
      else mk_f64 (f32_sign w) (f32_exp w + 896) (f32_frac w * 2 ^ 29))"

subsection \<open>Truth values\<close>

text \<open>The truth value Python gives an object in \<^verbatim>\<open>if x:\<close>.\<close>

fun truthy :: "pyval \<Rightarrow> bool" where
  "truthy PyNone = False"
| "truthy (PyBool b) = b"
| "truthy (PyInt n) = (n \<noteq> 0)"
| "truthy (PyFloat d) = (f64_exp d \<noteq> 0 \<or> f64_frac d \<noteq> 0)"
| "truthy (PyStr s) = (s \<noteq> [])"

section \<open>The device variants and the Facade object\<close>

text \<open>The enumeration \<^verbatim>\<open>Devices\<close> (an IntEnum) and the values of its members.\<close>

datatype Devices = ATTODRY1100 | ATTODRY2100 | ATTODRY800

fun Devices_value :: "Devices \<Rightarrow> int" where
  "Devices_value ATTODRY1100 = 0"
| "Devices_value ATTODRY2100 = 1"
| "Devices_value ATTODRY800 = 2"

text \<open>
  An \<^verbatim>\<open>AttoDRY\<close> object has the two attributes its constructor assigns.
\<close>

record AttoDRY =
  setup_version :: Devices
  com_port :: pystr

definition init_AttoDRY :: "Devices \<Rightarrow> pystr \<Rightarrow> AttoDRY" where
  "init_AttoDRY setup_version' com_port' =
     \<lparr>setup_version = setup_version', com_port = com_port'\<rparr>"

section \<open>The driver boundary\<close>

text \<open>
  Every method forwards to a function of the module \<^verbatim>\<open>AttoDRYlib\<close> (imported as
  \<^verbatim>\<open>adryLib\<close>), the binding of the vendor library. That module is not part of the
  sources at hand, so the driver is a parameter of the model. An argument of a driver
  call is a Python integer, a Python bytes object, a ctypes object, or a reference
  \<^verbatim>\<open>ctypes.byref(x)\<close> to one.
\<close>

datatype arg =
    Py_int int
  | Py_bytes "byte list"
  | C_int "32 word"
  | C_float "32 word"
  | C_char_array "byte list"
  | ByRef arg

text \<open>
  A driver over states \<open>'d\<close> has entry points selected by name, as the attributes of
  \<^verbatim>\<open>adryLib\<close> are. An entry point called with values only changes the driver's state.
  One called with a reference to a 4-byte cell (a \<^verbatim>\<open>c_int\<close> or a \<^verbatim>\<open>c_float\<close>: the
  callee sees the address only) is given the cell's content and returns the new one.
  One called with a reference to a character array and its length returns the bytes it
  writes from the start of the array. A driver call returns: the driver raises no Python
  exception.
\<close>

record 'd driver =
  entry :: "string \<Rightarrow> arg list \<Rightarrow> 'd \<Rightarrow> 'd"
  entry_out32 :: "string \<Rightarrow> 32 word \<Rightarrow> 'd \<Rightarrow> 32 word \<times> 'd"
  entry_outbuf :: "string \<Rightarrow> byte list \<Rightarrow> 32 word \<Rightarrow> 'd \<Rightarrow> byte list \<times> 'd"

text \<open>
  The state a method runs in: the Facade object, the driver's state, and the log of the
  driver calls made so far, oldest first.
\<close>

type_synonym call = "string \<times> arg list"

record 'd state =
  facade :: AttoDRY
  driver_state :: 'd
  calls :: "call list"

definition adry_call :: "'d driver \<Rightarrow> string \<Rightarrow> arg list \<Rightarrow> 'd state \<Rightarrow> 'd state" where
  "adry_call D name args st =
     st\<lparr>driver_state := entry D name args (driver_state st),
        calls := calls st @ [(name, args)]\<rparr>"

definition adry_call_byref_c_float ::
  "'d driver \<Rightarrow> string \<Rightarrow> 32 word \<Rightarrow> 'd state \<Rightarrow> 32 word \<times> 'd state" where
  "adry_call_byref_c_float D name w st =
     (case entry_out32 D name w (driver_state st) of
        (w', d') \<Rightarrow>
          (w', st\<lparr>driver_state := d', calls := calls st @ [(name, [ByRef (C_float w)])]\<rparr>))"

definition adry_call_byref_c_int ::
  "'d driver \<Rightarrow> string \<Rightarrow> 32 word \<Rightarrow> 'd state \<Rightarrow> 32 word \<times> 'd state" where
  "adry_call_byref_c_int D name w st =
     (case entry_out32 D name w (driver_state st) of
        (w', d') \<Rightarrow>
          (w', st\<lparr>driver_state := d', calls := calls st @ [(name, [ByRef (C_int w)])]\<rparr>))"

text \<open>What the driver writes replaces the start of the array and is cut at its end.\<close>

definition adry_call_byref_buffer ::
  "'d driver \<Rightarrow> string \<Rightarrow> byte list \<Rightarrow> 32 word \<Rightarrow> 'd state \<Rightarrow> byte list \<times> 'd state" where
  "adry_call_byref_buffer D name buf c_length st =
     (case entry_outbuf D name buf c_length (driver_state st) of
        (out, d') \<Rightarrow>
          (take (length buf) (out @ drop (length out) buf),
           st\<lparr>driver_state := d',
              calls := calls st @ [(name, [ByRef (C_char_array buf), C_int c_length])]\<rparr>))"

section \<open>The methods of the class AttoDRY\<close>

text \<open>
  One definition for each method, in the order of the class, under the method's name
  (\<open>begin\<close> and \<open>end\<close> are \<open>begin_method\<close> and \<open>end_method\<close>; the parameters
  \<open>length\<close> and \<open>append\<close> are primed). A method takes the driver and the state and
  returns its result, an exception or a value, and the new state. The float parameters
  are Python floats, the paths Python strings, the curve numbers, the logging interval
  and the length Python integers, \<open>append\<close> a Python bool.
\<close>

definition begin_method :: "'d driver \<Rightarrow> 'd state \<Rightarrow> pyval result \<times> 'd state" where
  "begin_method D st =
     (let c = c_uint16 (Devices_value (setup_version (facade st)))
      in (Inr PyNone, adry_call D ''begin'' [Py_int (c_uint16_value c)] st))"

definition Connect :: "'d driver \<Rightarrow> 'd state \<Rightarrow> pyval result \<times> 'd state" where
  "Connect D st =
     (case utf8_encode (com_port (facade st)) of
        Inl e \<Rightarrow> (Inl e, st)
      | Inr COMPort \<Rightarrow>
          (Inr PyNone, adry_call D ''Connect'' [Py_bytes (c_string_value COMPort)] st))"

definition Disconnect :: "'d driver \<Rightarrow> 'd state \<Rightarrow> pyval result \<times> 'd state" where
  "Disconnect D st = (Inr PyNone, adry_call D ''Disconnect'' [] st)"

definition Cancel :: "'d driver \<Rightarrow> 'd state \<Rightarrow> pyval result \<times> 'd state" where
  "Cancel D st = (Inr PyNone, adry_call D ''Cancel'' [] st)"

definition Confirm :: "'d driver \<Rightarrow> 'd state \<Rightarrow> pyval result \<times> 'd state" where
  "Confirm D st = (Inr PyNone, adry_call D ''Confirm'' [] st)"

definition getActionMessage :: "'d driver \<Rightarrow> int \<Rightarrow> 'd state \<Rightarrow> pyval result \<times> 'd state" where
  "getActionMessage D length' st =
     (case create_string_buffer length' of
        Inl e \<Rightarrow> (Inl e, st)
      | Inr ActionMessage \<Rightarrow>
          (case adry_call_byref_buffer D ''getAttodryErrorMessage'' ActionMessage (c_int length') st of
             (ActionMessage', st') \<Rightarrow>
               (case utf8_decode (c_string_value ActionMessage') of
                  Inl e \<Rightarrow> (Inl e, st')
                | Inr s \<Rightarrow> (Inr (PyStr s), st'))))"

definition getAttodryErrorMessage :: "'d driver \<Rightarrow> int \<Rightarrow> 'd state \<Rightarrow> pyval result \<times> 'd state" where
  "getAttodryErrorMessage D length' st =
     (case create_string_buffer length' of
        Inl e \<Rightarrow> (Inl e, st)
      | Inr ErrorStatus \<Rightarrow>
          (case adry_call_byref_buffer D ''getAttodryErrorMessage'' ErrorStatus (c_int length') st of
             (ErrorStatus', st') \<Rightarrow>
               (case utf8_decode (c_string_value ErrorStatus') of
                  Inl e \<Rightarrow> (Inl e, st')
                | Inr s \<Rightarrow> (Inr (PyStr s), st'))))"

definition getAttodryErrorStatus :: "'d driver \<Rightarrow> 'd state \<Rightarrow> pyval result \<times> 'd state" where
  "getAttodryErrorStatus D st =
     (case adry_call_byref_c_int D ''getAttodryErrorStatus'' 0 st of
        (ErrorCode, st') \<Rightarrow> (Inr (PyInt (c_int_value ErrorCode)), st'))"

definition isControllingField :: "'d driver \<Rightarrow> 'd state \<Rightarrow> pyval result \<times> 'd state" where
  "isControllingField D st =
     (case adry_call_byref_c_int D ''isControllingField'' 0 st of
        (ControllingField, st') \<Rightarrow> (Inr (PyInt (c_int_value ControllingField)), st'))"

definition isControllingTemperature :: "'d driver \<Rightarrow> 'd state \<Rightarrow> pyval result \<times> 'd state" where
  "isControllingTemperature D st =
     (case adry_call_byref_c_int D ''isControllingTemperature'' 0 st of
        (ControllingTemperature, st') \<Rightarrow> (Inr (PyInt (c_int_value ControllingTemperature)), st'))"

definition isPersistentModeSet :: "'d driver \<Rightarrow> 'd state \<Rightarrow> pyval result \<times> 'd state" where
  "isPersistentModeSet D st =
     (case adry_call_byref_c_int D ''isPersistentModeSet'' 0 st of
        (PersistentMode, st') \<Rightarrow> (Inr (PyInt (c_int_value PersistentMode)), st'))"

definition isDeviceInitialised :: "'d driver \<Rightarrow> 'd state \<Rightarrow> pyval result \<times> 'd state" where
  "isDeviceInitialised D st =
     (case adry_call_byref_c_int D ''isDeviceInitialised'' 0 st of
        (DeviceInitialised, st') \<Rightarrow> (Inr (PyInt (c_int_value DeviceInitialised)), st'))"

definition isDeviceConnected :: "'d driver \<Rightarrow> 'd state \<Rightarrow> pyval result \<times> 'd state" where
  "isDeviceConnected D st =
     (case adry_call_byref_c_int D ''isDeviceConnected'' 0 st of
        (DeviceConnected, st') \<Rightarrow> (Inr (PyInt (c_int_value DeviceConnected)), st'))"

text \<open>
  In the class \<open>end\<close> stands between \<open>Disconnect\<close> and \<open>Cancel\<close>; it calls
  \<open>isDeviceConnected\<close>, so its definition follows that one.
\<close>

definition end_method :: "'d driver \<Rightarrow> 'd state \<Rightarrow> pyval result \<times> 'd state" where
  "end_method D st =
     (case isDeviceConnected D st of
        (Inl e, st1) \<Rightarrow> (Inl e, st1)
      | (Inr DeviceConnected, st1) \<Rightarrow>
          (if truthy DeviceConnected then
             (case Disconnect D st1 of
                (Inl e, st2) \<Rightarrow> (Inl e, st2)
              | (Inr r, st2) \<Rightarrow> (Inr PyNone, adry_call D ''end'' [] st2))
           else (Inr PyNone, adry_call D ''end'' [] st1)))"

definition toggleMagneticFieldControl :: "'d driver \<Rightarrow> 'd state \<Rightarrow> pyval result \<times> 'd state" where
  "toggleMagneticFieldControl D st = (Inr PyNone, adry_call D ''toggleMagneticFieldControl'' [] st)"

definition togglePersistentMode :: "'d driver \<Rightarrow> 'd state \<Rightarrow> pyval result \<times> 'd state" where
  "togglePersistentMode D st = (Inr PyNone, adry_call D ''togglePersistentMode'' [] st)"

definition toggleSampleTemperatureControl :: "'d driver \<Rightarrow> 'd state \<Rightarrow> pyval result \<times> 'd state" where
  "toggleSampleTemperatureControl D st = (Inr PyNone, adry_call D ''toggleSampleTemperatureControl'' [] st)"

definition toggleFullTemperatureControl :: "'d driver \<Rightarrow> 'd state \<Rightarrow> pyval result \<times> 'd state" where
  "toggleFullTemperatureControl D st = (Inr PyNone, adry_call D ''toggleFullTemperatureControl'' [] st)"

definition goToBaseTemperature :: "'d driver \<Rightarrow> 'd state \<Rightarrow> pyval result \<times> 'd state" where
  "goToBaseTemperature D st = (Inr PyNone, adry_call D ''goToBaseTemperature'' [] st)"

definition get4KStageTemperature :: "'d driver \<Rightarrow> 'd state \<Rightarrow> pyval result \<times> 'd state" where
  "get4KStageTemperature D st =
     (case adry_call_byref_c_float D ''get4KStageTemperature'' 0 st of
        (StageTemperature, st') \<Rightarrow> (Inr (PyFloat (c_float_value StageTemperature)), st'))"

definition getMagneticField :: "'d driver \<Rightarrow> 'd state \<Rightarrow> pyval result \<times> 'd state" where
  "getMagneticField D st =
     (case adry_call_byref_c_float D ''getMagneticField'' 0 st of
        (MagneticField, st') \<Rightarrow> (Inr (PyFloat (c_float_value MagneticField)), st'))"

definition getMagneticFieldSetPoint :: "'d driver \<Rightarrow> 'd state \<Rightarrow> pyval result \<times> 'd state" where
  "getMagneticFieldSetPoint D st =
     (case adry_call_byref_c_float D ''getMagneticFieldSetPoint'' 0 st of
        (MagneticField, st') \<Rightarrow> (Inr (PyFloat (c_float_value MagneticField)), st'))"

definition getSampleTemperature :: "'d driver \<Rightarrow> 'd state \<Rightarrow> pyval result \<times> 'd state" where
  "getSampleTemperature D st =
     (case adry_call_byref_c_float D ''getSampleTemperature'' 0 st of
        (Temperature, st') \<Rightarrow> (Inr (PyFloat (c_float_value Temperature)), st'))"

definition getUserTemperature :: "'d driver \<Rightarrow> 'd state \<Rightarrow> pyval result \<times> 'd state" where
  "getUserTemperature D st =
     (case adry_call_byref_c_float D ''getUserTemperature'' 0 st of
        (Temperature, st') \<Rightarrow> (Inr (PyFloat (c_float_value Temperature)), st'))"

definition setUserMagneticField :: "'d driver \<Rightarrow> pyfloat \<Rightarrow> 'd state \<Rightarrow> pyval result \<times> 'd state" where
  "setUserMagneticField D magnetic_field st = (Inr PyNone, adry_call D ''setUserMagneticField'' [C_float (c_float magnetic_field)] st)"

definition setUserTemperature :: "'d driver \<Rightarrow> pyfloat \<Rightarrow> 'd state \<Rightarrow> pyval result \<times> 'd state" where
  "setUserTemperature D temperature st = (Inr PyNone, adry_call D ''setUserTemperature'' [C_float (c_float temperature)] st)"

definition downloadSampleTemperatureSensorCalibrationCurve :: "'d driver \<Rightarrow> pystr \<Rightarrow> 'd state \<Rightarrow> pyval result \<times> 'd state" where
  "downloadSampleTemperatureSensorCalibrationCurve D savepath st =
     (case utf8_encode savepath of
        Inl e \<Rightarrow> (Inl e, st)
      | Inr Savepath \<Rightarrow>
          (Inr PyNone, adry_call D ''downloadSampleTemperatureSensorCalibrationCurve'' [Py_bytes (c_string_value Savepath)] st))"

definition downloadTemperatureSensorCalibrationCurve ::
  "'d driver \<Rightarrow> int \<Rightarrow> pystr \<Rightarrow> 'd state \<Rightarrow> pyval result \<times> 'd state" where
  "downloadTemperatureSensorCalibrationCurve D user_curve_number savepath st =
     (case utf8_encode savepath of
        Inl e \<Rightarrow> (Inl e, st)
      | Inr Savepath \<Rightarrow>
          (Inr PyNone,
           adry_call D ''downloadTemperatureSensorCalibrationCurve''
             [C_int (c_int user_curve_number), Py_bytes (c_string_value Savepath)] st))"

definition getDerivativeGain :: "'d driver \<Rightarrow> 'd state \<Rightarrow> pyval result \<times> 'd state" where
  "getDerivativeGain D st =
     (case adry_call_byref_c_float D ''getDerivativeGain'' 0 st of
        (DerivativeGain, st') \<Rightarrow> (Inr (PyFloat (c_float_value DerivativeGain)), st'))"

definition getIntegralGain :: "'d driver \<Rightarrow> 'd state \<Rightarrow> pyval result \<times> 'd state" where
  "getIntegralGain D st =
     (case adry_call_byref_c_float D ''getIntegralGain'' 0 st of
        (IntegralGain, st') \<Rightarrow> (Inr (PyFloat (c_float_value IntegralGain)), st'))"

definition getProportionalGain :: "'d driver \<Rightarrow> 'd state \<Rightarrow> pyval result \<times> 'd state" where
  "getProportionalGain D st =
     (case adry_call_byref_c_float D ''getProportionalGain'' 0 st of
        (ProportionalGain, st') \<Rightarrow> (Inr (PyFloat (c_float_value ProportionalGain)), st'))"

definition getSampleHeaterMaximumPower :: "'d driver \<Rightarrow> 'd state \<Rightarrow> pyval result \<times> 'd state" where
  "getSampleHeaterMaximumPower D st =
     (case adry_call_byref_c_float D ''getSampleHeaterMaximumPower'' 0 st of
        (SampleHeaterMaximumPower, st') \<Rightarrow> (Inr (PyFloat (c_float_value SampleHeaterMaximumPower)), st'))"

definition getSampleHeaterPower :: "'d driver \<Rightarrow> 'd state \<Rightarrow> pyval result \<times> 'd state" where
  "getSampleHeaterPower D st =
     (case adry_call_byref_c_float D ''getSampleHeaterPower'' 0 st of
        (SampleHeaterPower, st') \<Rightarrow> (Inr (PyFloat (c_float_value SampleHeaterPower)), st'))"

definition getSampleHeaterResistance :: "'d driver \<Rightarrow> 'd state \<Rightarrow> pyval result \<times> 'd state" where
  "getSampleHeaterResistance D st =
     (case adry_call_byref_c_float D ''getSampleHeaterResistance'' 0 st of
        (SampleHeaterResistance, st') \<Rightarrow> (Inr (PyFloat (c_float_value SampleHeaterResistance)), st'))"

definition getSampleHeaterWireResistance :: "'d driver \<Rightarrow> 'd state \<Rightarrow> pyval result \<times> 'd state" where
  "getSampleHeaterWireResistance D st =
     (case adry_call_byref_c_float D ''getSampleHeaterWireResistance'' 0 st of
        (SampleHeaterWireResistance, st') \<Rightarrow> (Inr (PyFloat (c_float_value SampleHeaterWireResistance)), st'))"

definition getVtiHeaterPower :: "'d driver \<Rightarrow> 'd state \<Rightarrow> pyval result \<times> 'd state" where
  "getVtiHeaterPower D st =
     (case adry_call_byref_c_float D ''getVtiHeaterPower'' 0 st of
        (VtiHeaterPower, st') \<Rightarrow> (Inr (PyFloat (c_float_value VtiHeaterPower)), st'))"

definition getVtiTemperature :: "'d driver \<Rightarrow> 'd state \<Rightarrow> pyval result \<times> 'd state" where
  "getVtiTemperature D st =
     (case adry_call_byref_c_float D ''getVtiTemperature'' 0 st of
        (VtiTemperature, st') \<Rightarrow> (Inr (PyFloat (c_float_value VtiTemperature)), st'))"

definition isGoingToBaseTemperature :: "'d driver \<Rightarrow> 'd state \<Rightarrow> pyval result \<times> 'd state" where
  "isGoingToBaseTemperature D st =
     (case adry_call_byref_c_int D ''isGoingToBaseTemperature'' 0 st of
        (GoingToBaseTemperature, st') \<Rightarrow> (Inr (PyInt (c_int_value GoingToBaseTemperature)), st'))"

definition isPumping :: "'d driver \<Rightarrow> 'd state \<Rightarrow> pyval result \<times> 'd state" where
  "isPumping D st =
     (case adry_call_byref_c_int D ''isPumping'' 0 st of
        (Pumping, st') \<Rightarrow> (Inr (PyInt (c_int_value Pumping)), st'))"

definition isSampleExchangeInProgress :: "'d driver \<Rightarrow> 'd state \<Rightarrow> pyval result \<times> 'd state" where
  "isSampleExchangeInProgress D st =
     (case adry_call_byref_c_int D ''isSampleExchangeInProgress'' 0 st of
        (SampleExchangeInProgress, st') \<Rightarrow> (Inr (PyInt (c_int_value SampleExchangeInProgress)), st'))"

definition isSampleHeaterOn :: "'d driver \<Rightarrow> 'd state \<Rightarrow> pyval result \<times> 'd state" where
  "isSampleHeaterOn D st =
     (case adry_call_byref_c_int D ''isSampleHeaterOn'' 0 st of
        (SampleHeaterOn, st') \<Rightarrow> (Inr (PyInt (c_int_value SampleHeaterOn)), st'))"

definition isSampleReadyToExchange :: "'d driver \<Rightarrow> 'd state \<Rightarrow> pyval result \<times> 'd state" where
  "isSampleReadyToExchange D st =
     (case adry_call_byref_c_int D ''isSampleReadyToExchange'' 0 st of
        (SampleReadyToExchange, st') \<Rightarrow> (Inr (PyInt (c_int_value SampleReadyToExchange)), st'))"

definition isSystemRunning :: "'d driver \<Rightarrow> 'd state \<Rightarrow> pyval result \<times> 'd state" where
  "isSystemRunning D st =
     (case adry_call_byref_c_int D ''isSystemRunning'' 0 st of
        (SystemRunning, st') \<Rightarrow> (Inr (PyInt (c_int_value SystemRunning)), st'))"

definition isZeroingField :: "'d driver \<Rightarrow> 'd state \<Rightarrow> pyval result \<times> 'd state" where
  "isZeroingField D st =
     (case adry_call_byref_c_int D ''isZeroingField'' 0 st of
        (ZeroingField, st') \<Rightarrow> (Inr (PyInt (c_int_value ZeroingField)), st'))"

definition lowerError :: "'d driver \<Rightarrow> 'd state \<Rightarrow> pyval result \<times> 'd state" where
  "lowerError D st = (Inr PyNone, adry_call D ''lowerError'' [] st)"

definition querySampleHeaterMaximumPower :: "'d driver \<Rightarrow> 'd state \<Rightarrow> pyval result \<times> 'd state" where
  "querySampleHeaterMaximumPower D st = (Inr PyNone, adry_call D ''querySampleHeaterMaximumPower'' [] st)"

definition querySampleHeaterResistance :: "'d driver \<Rightarrow> 'd state \<Rightarrow> pyval result \<times> 'd state" where
  "querySampleHeaterResistance D st = (Inr PyNone, adry_call D ''querySampleHeaterResistance'' [] st)"

definition querySampleHeaterWireResistance :: "'d driver \<Rightarrow> 'd state \<Rightarrow> pyval result \<times> 'd state" where
  "querySampleHeaterWireResistance D st = (Inr PyNone, adry_call D ''querySampleHeaterWireResistance'' [] st)"

definition setDerivativeGain :: "'d driver \<Rightarrow> pyfloat \<Rightarrow> 'd state \<Rightarrow> pyval result \<times> 'd state" where
  "setDerivativeGain D derivative_gain st = (Inr PyNone, adry_call D ''setDerivativeGain'' [C_float (c_float derivative_gain)] st)"

definition setIntegralGain :: "'d driver \<Rightarrow> pyfloat \<Rightarrow> 'd state \<Rightarrow> pyval result \<times> 'd state" where
  "setIntegralGain D integral_gain st = (Inr PyNone, adry_call D ''setIntegralGain'' [C_float (c_float integral_gain)] st)"

definition setProportionalGain :: "'d driver \<Rightarrow> pyfloat \<Rightarrow> 'd state \<Rightarrow> pyval result \<times> 'd state" where
  "setProportionalGain D proportional_gain st = (Inr PyNone, adry_call D ''setProportionalGain'' [C_float (c_float proportional_gain)] st)"

definition setSampleHeaterMaximumPower :: "'d driver \<Rightarrow> pyfloat \<Rightarrow> 'd state \<Rightarrow> pyval result \<times> 'd state" where
  "setSampleHeaterMaximumPower D maximum_power st = (Inr PyNone, adry_call D ''setSampleHeaterMaximumPower'' [C_float (c_float maximum_power)] st)"

definition setSampleHeaterWireResistance :: "'d driver \<Rightarrow> pyfloat \<Rightarrow> 'd state \<Rightarrow> pyval result \<times> 'd state" where
  "setSampleHeaterWireResistance D wire_resistance st = (Inr PyNone, adry_call D ''setSampleHeaterWireResistance'' [C_float (c_float wire_resistance)] st)"

definition setSampleHeaterPower :: "'d driver \<Rightarrow> pyfloat \<Rightarrow> 'd state \<Rightarrow> pyval result \<times> 'd state" where
  "setSampleHeaterPower D heater_power_w st = (Inr PyNone, adry_call D ''setSampleHeaterPower'' [C_float (c_float heater_power_w)] st)"

definition setSampleHeaterResistance :: "'d driver \<Rightarrow> pyfloat \<Rightarrow> 'd state \<Rightarrow> pyval result \<times> 'd state" where
  "setSampleHeaterResistance D heater_resistance st = (Inr PyNone, adry_call D ''setSampleHeaterResistance'' [C_float (c_float heater_resistance)] st)"

definition startLogging ::
  "'d driver \<Rightarrow> pystr \<Rightarrow> int \<Rightarrow> bool \<Rightarrow> 'd state \<Rightarrow> pyval result \<times> 'd state" where
  "startLogging D savepath time_selection append' st =
     (case utf8_encode savepath of
        Inl e \<Rightarrow> (Inl e, st)
      | Inr Savepath \<Rightarrow>
          (Inr PyNone,
           adry_call D ''startLogging''
             [Py_bytes (c_string_value Savepath),
              Py_int (c_int_value (c_int time_selection)),
              Py_int (c_int_value (c_int (if append' then 1 else 0)))] st))"

definition startSampleExchange :: "'d driver \<Rightarrow> 'd state \<Rightarrow> pyval result \<times> 'd state" where
  "startSampleExchange D st = (Inr PyNone, adry_call D ''startSampleExchange'' [] st)"

definition stopLogging :: "'d driver \<Rightarrow> 'd state \<Rightarrow> pyval result \<times> 'd state" where
  "stopLogging D st = (Inr PyNone, adry_call D ''stopLogging'' [] st)"

definition sweepFieldToZero :: "'d driver \<Rightarrow> 'd state \<Rightarrow> pyval result \<times> 'd state" where
  "sweepFieldToZero D st = (Inr PyNone, adry_call D ''sweepFieldToZero'' [] st)"

definition togglePump :: "'d driver \<Rightarrow> 'd state \<Rightarrow> pyval result \<times> 'd state" where
  "togglePump D st = (Inr PyNone, adry_call D ''togglePump'' [] st)"

definition toggleStartUpShutdown :: "'d driver \<Rightarrow> 'd state \<Rightarrow> pyval result \<times> 'd state" where
  "toggleStartUpShutdown D st = (Inr PyNone, adry_call D ''toggleStartUpShutdown'' [] st)"

definition uploadSampleTemperatureCalibrationCurve :: "'d driver \<Rightarrow> pystr \<Rightarrow> 'd state \<Rightarrow> pyval result \<times> 'd state" where
  "uploadSampleTemperatureCalibrationCurve D loadpath st =
     (case utf8_encode loadpath of
        Inl e \<Rightarrow> (Inl e, st)
      | Inr Loadpath \<Rightarrow>
          (Inr PyNone, adry_call D ''uploadSampleTemperatureCalibrationCurve'' [Py_bytes (c_string_value Loadpath)] st))"

definition uploadTemperatureCalibrationCurve ::
  "'d driver \<Rightarrow> pystr \<Rightarrow> int \<Rightarrow> 'd state \<Rightarrow> pyval result \<times> 'd state" where
  "uploadTemperatureCalibrationCurve D loadpath user_curve_number st =
     (case utf8_encode loadpath of
        Inl e \<Rightarrow> (Inl e, st)
      | Inr Loadpath \<Rightarrow>
          (Inr PyNone,
           adry_call D ''uploadTemperatureCalibrationCurve''
             [Py_int (c_int_value (c_int user_curve_number)),
              Py_bytes (c_string_value Loadpath)] st))"

definition setVTIHeaterPower :: "'d driver \<Rightarrow> pyfloat \<Rightarrow> 'd state \<Rightarrow> pyval result \<times> 'd state" where
  "setVTIHeaterPower D vti_heater_power_w st = (Inr PyNone, adry_call D ''setVTIHeaterPower'' [C_float (c_float vti_heater_power_w)] st)"

definition queryReservoirTsetColdSample :: "'d driver \<Rightarrow> 'd state \<Rightarrow> pyval result \<times> 'd state" where
  "queryReservoirTsetColdSample D st = (Inr PyNone, adry_call D ''queryReservoirTsetColdSample'' [] st)"

definition getReservoirTsetColdSample :: "'d driver \<Rightarrow> 'd state \<Rightarrow> pyval result \<times> 'd state" where
  "getReservoirTsetColdSample D st =
     (case adry_call_byref_c_float D ''getReservoirTsetColdSample'' 0 st of
        (ReservoirTsetColdSampleK, st') \<Rightarrow> (Inr (PyFloat (c_float_value ReservoirTsetColdSampleK)), st'))"

definition setReservoirTsetWarmMagnet :: "'d driver \<Rightarrow> pyfloat \<Rightarrow> 'd state \<Rightarrow> pyval result \<times> 'd state" where
  "setReservoirTsetWarmMagnet D reservoir_tset_warm_magnet_w st = (Inr PyNone, adry_call D ''setReservoirTsetWarmMagnet'' [C_float (c_float reservoir_tset_warm_magnet_w)] st)"

definition setReservoirTsetColdSample :: "'d driver \<Rightarrow> pyfloat \<Rightarrow> 'd state \<Rightarrow> pyval result \<times> 'd state" where
  "setReservoirTsetColdSample D set_reservoir_tset_cold_sample_k st = (Inr PyNone, adry_call D ''setReservoirTsetColdSample'' [C_float (c_float set_reservoir_tset_cold_sample_k)] st)"

definition setReservoirTsetWarmSample :: "'d driver \<Rightarrow> pyfloat \<Rightarrow> 'd state \<Rightarrow> pyval result \<times> 'd state" where
  "setReservoirTsetWarmSample D ReservoirTsetWarmSampleW st = (Inr PyNone, adry_call D ''setReservoirTsetWarmSample'' [C_float (c_float ReservoirTsetWarmSampleW)] st)"

definition queryReservoirTsetWarmSample :: "'d driver \<Rightarrow> 'd state \<Rightarrow> pyval result \<times> 'd state" where
  "queryReservoirTsetWarmSample D st = (Inr PyNone, adry_call D ''queryReservoirTsetWarmSample'' [] st)"

definition queryReservoirTsetWarmMagnet :: "'d driver \<Rightarrow> 'd state \<Rightarrow> pyval result \<times> 'd state" where
  "queryReservoirTsetWarmMagnet D st = (Inr PyNone, adry_call D ''queryReservoirTsetWarmMagnet'' [] st)"

definition getReservoirTsetWarmSample :: "'d driver \<Rightarrow> 'd state \<Rightarrow> pyval result \<times> 'd state" where
  "getReservoirTsetWarmSample D st =
     (case adry_call_byref_c_float D ''getReservoirTsetWarmSample'' 0 st of
        (ReservoirTsetWarmSampleK, st') \<Rightarrow> (Inr (PyFloat (c_float_value ReservoirTsetWarmSampleK)), st'))"

definition getReservoirTsetWarmMagnet :: "'d driver \<Rightarrow> 'd state \<Rightarrow> pyval result \<times> 'd state" where
  "getReservoirTsetWarmMagnet D st =
     (case adry_call_byref_c_float D ''getReservoirTsetWarmMagnet'' 0 st of
        (ReservoirTsetWarmMagnetK, st') \<Rightarrow> (Inr (PyFloat (c_float_value ReservoirTsetWarmMagnetK)), st'))"

definition getCryostatInPressure :: "'d driver \<Rightarrow> 'd state \<Rightarrow> pyval result \<times> 'd state" where
  "getCryostatInPressure D st =
     (case adry_call_byref_c_float D ''getCryostatInPressure'' 0 st of
        (CryostatInPressureMbar, st') \<Rightarrow> (Inr (PyFloat (c_float_value CryostatInPressureMbar)), st'))"

definition getCryostatInValve :: "'d driver \<Rightarrow> 'd state \<Rightarrow> pyval result \<times> 'd state" where
  "getCryostatInValve D st =
     (case adry_call_byref_c_int D ''getCryostatInValve'' 0 st of
        (valveStatus, st') \<Rightarrow> (Inr (PyInt (c_int_value valveStatus)), st'))"

definition getCryostatOutPressure :: "'d driver \<Rightarrow> 'd state \<Rightarrow> pyval result \<times> 'd state" where
  "getCryostatOutPressure D st =
     (case adry_call_byref_c_float D ''getCryostatOutPressure'' 0 st of
        (CryostatOutPressureMbar, st') \<Rightarrow> (Inr (PyFloat (c_float_value CryostatOutPressureMbar)), st'))"

definition getCryostatOutValve :: "'d driver \<Rightarrow> 'd state \<Rightarrow> pyval result \<times> 'd state" where
  "getCryostatOutValve D st =
     (case adry_call_byref_c_int D ''getCryostatOutValve'' 0 st of
        (valveStatus, st') \<Rightarrow> (Inr (PyInt (c_int_value valveStatus)), st'))"

definition getDumpInValve :: "'d driver \<Rightarrow> 'd state \<Rightarrow> pyval result \<times> 'd state" where
  "getDumpInValve D st =
     (case adry_call_byref_c_int D ''getDumpInValve'' 0 st of
        (valveStatus, st') \<Rightarrow> (Inr (PyInt (c_int_value valveStatus)), st'))"

definition getDumpOutValve :: "'d driver \<Rightarrow> 'd state \<Rightarrow> pyval result \<times> 'd state" where
  "getDumpOutValve D st =
     (case adry_call_byref_c_int D ''getDumpOutValve'' 0 st of
        (valveStatus, st') \<Rightarrow> (Inr (PyInt (c_int_value valveStatus)), st'))"

definition getDumpPressure :: "'d driver \<Rightarrow> 'd state \<Rightarrow> pyval result \<times> 'd state" where
  "getDumpPressure D st =
     (case adry_call_byref_c_float D ''getDumpPressure'' 0 st of
        (DumpPressureMbar, st') \<Rightarrow> (Inr (PyFloat (c_float_value DumpPressureMbar)), st'))"

definition getReservoirHeaterPower :: "'d driver \<Rightarrow> 'd state \<Rightarrow> pyval result \<times> 'd state" where
  "getReservoirHeaterPower D st =
     (case adry_call_byref_c_float D ''getReservoirHeaterPower'' 0 st of
        (ReservoirHeaterPowerW, st') \<Rightarrow> (Inr (PyFloat (c_float_value ReservoirHeaterPowerW)), st'))"

definition getReservoirTemperature :: "'d driver \<Rightarrow> 'd state \<Rightarrow> pyval result \<times> 'd state" where
  "getReservoirTemperature D st =
     (case adry_call_byref_c_float D ''getReservoirTemperature'' 0 st of
        (ReservoirTemperatureK, st') \<Rightarrow> (Inr (PyFloat (c_float_value ReservoirTemperatureK)), st'))"

definition toggleCryostatInValve :: "'d driver \<Rightarrow> 'd state \<Rightarrow> pyval result \<times> 'd state" where
  "toggleCryostatInValve D st = (Inr PyNone, adry_call D ''toggleCryostatInValve'' [] st)"

definition toggleCryostatOutValve :: "'d driver \<Rightarrow> 'd state \<Rightarrow> pyval result \<times> 'd state" where
  "toggleCryostatOutValve D st = (Inr PyNone, adry_call D ''toggleCryostatOutValve'' [] st)"

definition toggleDumpInValve :: "'d driver \<Rightarrow> 'd state \<Rightarrow> pyval result \<times> 'd state" where
  "toggleDumpInValve D st = (Inr PyNone, adry_call D ''toggleDumpInValve'' [] st)"

definition toggleDumpOutValve :: "'d driver \<Rightarrow> 'd state \<Rightarrow> pyval result \<times> 'd state" where
  "toggleDumpOutValve D st = (Inr PyNone, adry_call D ''toggleDumpOutValve'' [] st)"

definition get40KStageTemperature :: "'d driver \<Rightarrow> 'd state \<Rightarrow> pyval result \<times> 'd state" where
  "get40KStageTemperature D st =
     (case adry_call_byref_c_float D ''get40KStageTemperature'' 0 st of
        (StageTemperatureK, st') \<Rightarrow> (Inr (PyFloat (c_float_value StageTemperatureK)), st'))"

definition getHeliumValve :: "'d driver \<Rightarrow> 'd state \<Rightarrow> pyval result \<times> 'd state" where
  "getHeliumValve D st =
     (case adry_call_byref_c_int D ''getHeliumValve'' 0 st of
        (valveStatus, st') \<Rightarrow> (Inr (PyInt (c_int_value valveStatus)), st'))"

definition getInnerVolumeValve :: "'d driver \<Rightarrow> 'd state \<Rightarrow> pyval result \<times> 'd state" where
  "getInnerVolumeValve D st =
     (case adry_call_byref_c_int D ''getInnerVolumeValve'' 0 st of
        (valveStatus, st') \<Rightarrow> (Inr (PyInt (c_int_value valveStatus)), st'))"

definition getOuterVolumeValve :: "'d driver \<Rightarrow> 'd state \<Rightarrow> pyval result \<times> 'd state" where
  "getOuterVolumeValve D st =
     (case adry_call_byref_c_int D ''getOuterVolumeValve'' 0 st of
        (valveStatus, st') \<Rightarrow> (Inr (PyInt (c_int_value valveStatus)), st'))"

definition getPressure :: "'d driver \<Rightarrow> 'd state \<Rightarrow> pyval result \<times> 'd state" where
  "getPressure D st =
     (case adry_call_byref_c_float D ''getPressure'' 0 st of
        (PressureMbar, st') \<Rightarrow> (Inr (PyFloat (c_float_value PressureMbar)), st'))"

definition getPumpValve :: "'d driver \<Rightarrow> 'd state \<Rightarrow> pyval result \<times> 'd state" where
  "getPumpValve D st =
     (case adry_call_byref_c_int D ''getPumpValve'' 0 st of
        (valveStatus, st') \<Rightarrow> (Inr (PyInt (c_int_value valveStatus)), st'))"

definition getTurbopumpFrequency :: "'d driver \<Rightarrow> 'd state \<Rightarrow> pyval result \<times> 'd state" where
  "getTurbopumpFrequency D st =
     (case adry_call_byref_c_float D ''getTurbopumpFrequency'' 0 st of
        (TurbopumpFrequencyHz, st') \<Rightarrow> (Inr (PyFloat (c_float_value TurbopumpFrequencyHz)), st'))"

definition isExchangeHeaterOn :: "'d driver \<Rightarrow> 'd state \<Rightarrow> pyval result \<times> 'd state" where
  "isExchangeHeaterOn D st =
     (case adry_call_byref_c_int D ''isExchangeHeaterOn'' 0 st of
        (ExchangeHeaterStatus, st') \<Rightarrow> (Inr (PyInt (c_int_value ExchangeHeaterStatus)), st'))"

definition toggleExchangeHeaterControl :: "'d driver \<Rightarrow> 'd state \<Rightarrow> pyval result \<times> 'd state" where
  "toggleExchangeHeaterControl D st = (Inr PyNone, adry_call D ''toggleExchangeHeaterControl'' [] st)"

definition toggleHeliumValve :: "'d driver \<Rightarrow> 'd state \<Rightarrow> pyval result \<times> 'd state" where
  "toggleHeliumValve D st = (Inr PyNone, adry_call D ''toggleHeliumValve'' [] st)"

definition toggleInnerVolumeValve :: "'d driver \<Rightarrow> 'd state \<Rightarrow> pyval result \<times> 'd state" where
  "toggleInnerVolumeValve D st = (Inr PyNone, adry_call D ''toggleInnerVolumeValve'' [] st)"

definition toggleOuterVolumeValve :: "'d driver \<Rightarrow> 'd state \<Rightarrow> pyval result \<times> 'd state" where
  "toggleOuterVolumeValve D st = (Inr PyNone, adry_call D ''toggleOuterVolumeValve'' [] st)"

definition togglePumpValve :: "'d driver \<Rightarrow> 'd state \<Rightarrow> pyval result \<times> 'd state" where
  "togglePumpValve D st = (Inr PyNone, adry_call D ''togglePumpValve'' [] st)"

definition getBreakVac800Valve :: "'d driver \<Rightarrow> 'd state \<Rightarrow> pyval result \<times> 'd state" where
  "getBreakVac800Valve D st =
     (case adry_call_byref_c_int D ''getTurbopumpFrequency'' 0 st of
        (valveStatus, st') \<Rightarrow> (Inr (PyInt (c_int_value valveStatus)), st'))"

definition toggleSampleSpace800Valve :: "'d driver \<Rightarrow> 'd state \<Rightarrow> pyval result \<times> 'd state" where
  "toggleSampleSpace800Valve D st = (Inr PyNone, adry_call D ''toggleSampleSpace800Valve'' [] st)"

definition getPump800Valve :: "'d driver \<Rightarrow> 'd state \<Rightarrow> pyval result \<times> 'd state" where
  "getPump800Valve D st =
     (case adry_call_byref_c_int D ''getPump800Valve'' 0 st of
        (valveStatus, st') \<Rightarrow> (Inr (PyInt (c_int_value valveStatus)), st'))"

definition getSampleSpace800Valve :: "'d driver \<Rightarrow> 'd state \<Rightarrow> pyval result \<times> 'd state" where
  "getSampleSpace800Valve D st =
     (case adry_call_byref_c_int D ''getSampleSpace800Valve'' 0 st of
        (valveStatus, st') \<Rightarrow> (Inr (PyInt (c_int_value valveStatus)), st'))"

definition togglePump800Valve :: "'d driver \<Rightarrow> 'd state \<Rightarrow> pyval result \<times> 'd state" where
  "togglePump800Valve D st = (Inr PyNone, adry_call D ''togglePump800Valve'' [] st)"

definition toggleBreakVac800Valve :: "'d driver \<Rightarrow> 'd state \<Rightarrow> pyval result \<times> 'd state" where
  "toggleBreakVac800Valve D st = (Inr PyNone, adry_call D ''toggleBreakVac800Valve'' [] st)"

definition getPressure800 :: "'d driver \<Rightarrow> 'd state \<Rightarrow> pyval result \<times> 'd state" where
  "getPressure800 D st =
     (case adry_call_byref_c_float D ''getPressure800'' 0 st of
        (CryostatInPressureMbar, st') \<Rightarrow> (Inr (PyFloat (c_float_value CryostatInPressureMbar)), st'))"

definition GetTurbopumpFrequ800 :: "'d driver \<Rightarrow> 'd state \<Rightarrow> pyval result \<times> 'd state" where
  "GetTurbopumpFrequ800 D st =
     (case adry_call_byref_c_float D ''GetTurbopumpFrequ800'' 0 st of
        (TurbopumpFrequencyHz, st') \<Rightarrow> (Inr (PyFloat (c_float_value TurbopumpFrequencyHz)), st'))"

section \<open>Calling a method by name\<close>

text \<open>
  A call \<^verbatim>\<open>facade.name(*args)\<close>. Each method takes its arguments from the argument
  list; a call with a name the class does not have, or with arguments of another number
  or type than the parameters above, is outside the model (\<open>None\<close>).
  \<open>length_arg\<close> supplies the default \<^verbatim>\<open>length=500\<close>.
\<close>

type_synonym 'd bound_method = "pyval list \<Rightarrow> 'd state \<Rightarrow> (pyval result \<times> 'd state) option"

definition no_args :: "('d state \<Rightarrow> pyval result \<times> 'd state) \<Rightarrow> 'd bound_method" where
  "no_args m args st = (case args of [] \<Rightarrow> Some (m st) | _ \<Rightarrow> None)"

definition float_arg :: "(pyfloat \<Rightarrow> 'd state \<Rightarrow> pyval result \<times> 'd state) \<Rightarrow> 'd bound_method" where
  "float_arg m args st = (case args of [PyFloat x] \<Rightarrow> Some (m x st) | _ \<Rightarrow> None)"

definition length_arg :: "(int \<Rightarrow> 'd state \<Rightarrow> pyval result \<times> 'd state) \<Rightarrow> 'd bound_method" where
  "length_arg m args st =
     (case args of [] \<Rightarrow> Some (m 500 st) | [PyInt n] \<Rightarrow> Some (m n st) | _ \<Rightarrow> None)"

definition path_arg :: "(pystr \<Rightarrow> 'd state \<Rightarrow> pyval result \<times> 'd state) \<Rightarrow> 'd bound_method" where
  "path_arg m args st = (case args of [PyStr p] \<Rightarrow> Some (m p st) | _ \<Rightarrow> None)"

definition number_path_arg ::
  "(int \<Rightarrow> pystr \<Rightarrow> 'd state \<Rightarrow> pyval result \<times> 'd state) \<Rightarrow> 'd bound_method" where
  "number_path_arg m args st =
     (case args of [PyInt n, PyStr p] \<Rightarrow> Some (m n p st) | _ \<Rightarrow> None)"

definition path_number_arg ::
  "(pystr \<Rightarrow> int \<Rightarrow> 'd state \<Rightarrow> pyval result \<times> 'd state) \<Rightarrow> 'd bound_method" where
  "path_number_arg m args st =
     (case args of [PyStr p, PyInt n] \<Rightarrow> Some (m p n st) | _ \<Rightarrow> None)"

definition logging_arg ::
  "(pystr \<Rightarrow> int \<Rightarrow> bool \<Rightarrow> 'd state \<Rightarrow> pyval result \<times> 'd state) \<Rightarrow> 'd bound_method" where
  "logging_arg m args st =
     (case args of [PyStr p, PyInt n, PyBool b] \<Rightarrow> Some (m p n b st) | _ \<Rightarrow> None)"

text \<open>The methods of the class, by name.\<close>

definition methods :: "'d driver \<Rightarrow> (string \<times> 'd bound_method) list" where
  "methods D =
     [(''begin'', no_args (begin_method D)),
      (''Connect'', no_args (Connect D)),
      (''Disconnect'', no_args (Disconnect D)),
      (''end'', no_args (end_method D)),
      (''Cancel'', no_args (Cancel D)),
      (''Confirm'', no_args (Confirm D)),
      (''getActionMessage'', length_arg (getActionMessage D)),
      (''getAttodryErrorMessage'', length_arg (getAttodryErrorMessage D)),
      (''getAttodryErrorStatus'', no_args (getAttodryErrorStatus D)),
      (''isControllingField'', no_args (isControllingField D)),
      (''isControllingTemperature'', no_args (isControllingTemperature D)),
      (''isPersistentModeSet'', no_args (isPersistentModeSet D)),
      (''isDeviceInitialised'', no_args (isDeviceInitialised D)),
      (''isDeviceConnected'', no_args (isDeviceConnected D)),
      (''toggleMagneticFieldControl'', no_args (toggleMagneticFieldControl D)),
      (''togglePersistentMode'', no_args (togglePersistentMode D)),
      (''toggleSampleTemperatureControl'', no_args (toggleSampleTemperatureControl D)),
      (''toggleFullTemperatureControl'', no_args (toggleFullTemperatureControl D)),
      (''goToBaseTemperature'', no_args (goToBaseTemperature D)),
      (''get4KStageTemperature'', no_args (get4KStageTemperature D)),
      (''getMagneticField'', no_args (getMagneticField D)),
      (''getMagneticFieldSetPoint'', no_args (getMagneticFieldSetPoint D)),
      (''getSampleTemperature'', no_args (getSampleTemperature D)),
      (''getUserTemperature'', no_args (getUserTemperature D)),
      (''setUserMagneticField'', float_arg (setUserMagneticField D)),
      (''setUserTemperature'', float_arg (setUserTemperature D)),
      (''downloadSampleTemperatureSensorCalibrationCurve'', path_arg (downloadSampleTemperatureSensorCalibrationCurve D)),
      (''downloadTemperatureSensorCalibrationCurve'', number_path_arg (downloadTemperatureSensorCalibrationCurve D)),
      (''getDerivativeGain'', no_args (getDerivativeGain D)),
      (''getIntegralGain'', no_args (getIntegralGain D)),
      (''getProportionalGain'', no_args (getProportionalGain D)),
      (''getSampleHeaterMaximumPower'', no_args (getSampleHeaterMaximumPower D)),
      (''getSampleHeaterPower'', no_args (getSampleHeaterPower D)),
      (''getSampleHeaterResistance'', no_args (getSampleHeaterResistance D)),
      (''getSampleHeaterWireResistance'', no_args (getSampleHeaterWireResistance D)),
      (''getVtiHeaterPower'', no_args (getVtiHeaterPower D)),
      (''getVtiTemperature'', no_args (getVtiTemperature D)),
      (''isGoingToBaseTemperature'', no_args (isGoingToBaseTemperature D)),
      (''isPumping'', no_args (isPumping D)),
      (''isSampleExchangeInProgress'', no_args (isSampleExchangeInProgress D)),
      (''isSampleHeaterOn'', no_args (isSampleHeaterOn D)),
      (''isSampleReadyToExchange'', no_args (isSampleReadyToExchange D)),
      (''isSystemRunning'', no_args (isSystemRunning D)),
      (''isZeroingField'', no_args (isZeroingField D)),
      (''lowerError'', no_args (lowerError D)),
      (''querySampleHeaterMaximumPower'', no_args (querySampleHeaterMaximumPower D)),
      (''querySampleHeaterResistance'', no_args (querySampleHeaterResistance D)),
      (''querySampleHeaterWireResistance'', no_args (querySampleHeaterWireResistance D)),
      (''setDerivativeGain'', float_arg (setDerivativeGain D)),
      (''setIntegralGain'', float_arg (setIntegralGain D)),
      (''setProportionalGain'', float_arg (setProportionalGain D)),
      (''setSampleHeaterMaximumPower'', float_arg (setSampleHeaterMaximumPower D)),
      (''setSampleHeaterWireResistance'', float_arg (setSampleHeaterWireResistance D)),
      (''setSampleHeaterPower'', float_arg (setSampleHeaterPower D)),
      (''setSampleHeaterResistance'', float_arg (setSampleHeaterResistance D)),
      (''startLogging'', logging_arg (startLogging D)),
      (''startSampleExchange'', no_args (startSampleExchange D)),
      (''stopLogging'', no_args (stopLogging D)),
      (''sweepFieldToZero'', no_args (sweepFieldToZero D)),
      (''togglePump'', no_args (togglePump D)),
      (''toggleStartUpShutdown'', no_args (toggleStartUpShutdown D)),
      (''uploadSampleTemperatureCalibrationCurve'', path_arg (uploadSampleTemperatureCalibrationCurve D)),
      (''uploadTemperatureCalibrationCurve'', path_number_arg (uploadTemperatureCalibrationCurve D)),
      (''setVTIHeaterPower'', float_arg (setVTIHeaterPower D)),
      (''queryReservoirTsetColdSample'', no_args (queryReservoirTsetColdSample D)),
      (''getReservoirTsetColdSample'', no_args (getReservoirTsetColdSample D)),
      (''setReservoirTsetWarmMagnet'', float_arg (setReservoirTsetWarmMagnet D)),
      (''setReservoirTsetColdSample'', float_arg (setReservoirTsetColdSample D)),
      (''setReservoirTsetWarmSample'', float_arg (setReservoirTsetWarmSample D)),
      (''queryReservoirTsetWarmSample'', no_args (queryReservoirTsetWarmSample D)),
      (''queryReservoirTsetWarmMagnet'', no_args (queryReservoirTsetWarmMagnet D)),
      (''getReservoirTsetWarmSample'', no_args (getReservoirTsetWarmSample D)),
      (''getReservoirTsetWarmMagnet'', no_args (getReservoirTsetWarmMagnet D)),
      (''getCryostatInPressure'', no_args (getCryostatInPressure D)),
      (''getCryostatInValve'', no_args (getCryostatInValve D)),
      (''getCryostatOutPressure'', no_args (getCryostatOutPressure D)),
      (''getCryostatOutValve'', no_args (getCryostatOutValve D)),
      (''getDumpInValve'', no_args (getDumpInValve D)),
      (''getDumpOutValve'', no_args (getDumpOutValve D)),
      (''getDumpPressure'', no_args (getDumpPressure D)),
      (''getReservoirHeaterPower'', no_args (getReservoirHeaterPower D)),
      (''getReservoirTemperature'', no_args (getReservoirTemperature D)),
      (''toggleCryostatInValve'', no_args (toggleCryostatInValve D)),
      (''toggleCryostatOutValve'', no_args (toggleCryostatOutValve D)),
      (''toggleDumpInValve'', no_args (toggleDumpInValve D)),
      (''toggleDumpOutValve'', no_args (toggleDumpOutValve D)),
      (''get40KStageTemperature'', no_args (get40KStageTemperature D)),
      (''getHeliumValve'', no_args (getHeliumValve D)),
      (''getInnerVolumeValve'', no_args (getInnerVolumeValve D)),
      (''getOuterVolumeValve'', no_args (getOuterVolumeValve D)),
      (''getPressure'', no_args (getPressure D)),
      (''getPumpValve'', no_args (getPumpValve D)),
      (''getTurbopumpFrequency'', no_args (getTurbopumpFrequency D)),
      (''isExchangeHeaterOn'', no_args (isExchangeHeaterOn D)),
      (''toggleExchangeHeaterControl'', no_args (toggleExchangeHeaterControl D)),
      (''toggleHeliumValve'', no_args (toggleHeliumValve D)),
      (''toggleInnerVolumeValve'', no_args (toggleInnerVolumeValve D)),
      (''toggleOuterVolumeValve'', no_args (toggleOuterVolumeValve D)),
      (''togglePumpValve'', no_args (togglePumpValve D)),
      (''getBreakVac800Valve'', no_args (getBreakVac800Valve D)),
      (''toggleSampleSpace800Valve'', no_args (toggleSampleSpace800Valve D)),
      (''getPump800Valve'', no_args (getPump800Valve D)),
      (''getSampleSpace800Valve'', no_args (getSampleSpace800Valve D)),
      (''togglePump800Valve'', no_args (togglePump800Valve D)),
      (''toggleBreakVac800Valve'', no_args (toggleBreakVac800Valve D)),
      (''getPressure800'', no_args (getPressure800 D)),
      (''GetTurbopumpFrequ800'', no_args (GetTurbopumpFrequ800 D))]"

definition call_method ::
  "'d driver \<Rightarrow> string \<Rightarrow> pyval list \<Rightarrow> 'd state \<Rightarrow> (pyval result \<times> 'd state) option" where
  "call_method D name args st =
     (case map_of (methods D) name of None \<Rightarrow> None | Some m \<Rightarrow> m args st)"

text \<open>
  A sequence of calls on one Facade, each running in the state the one before left,
  whether that one returned or raised.
\<close>

fun call_methods ::
  "'d driver \<Rightarrow> (string \<times> pyval list) list \<Rightarrow> 'd state \<Rightarrow> 'd state option" where
  "call_methods D [] st = Some st"
| "call_methods D ((name, args) # cs) st =
     (case call_method D name args st of
        None \<Rightarrow> None
      | Some (r, st') \<Rightarrow> call_methods D cs st')"

text \<open>A bound method that never changes the Facade object.\<close>

definition keeps_facade :: "'d bound_method \<Rightarrow> bool" where
  "keeps_facade m = (\<forall>args st r st'. m args st = Some (r, st') \<longrightarrow> facade st' = facade st)"

text \<open>
  The scalar telemetry getters: the methods that read one \<^verbatim>\<open>c_float\<close> from the driver.
\<close>

definition telemetry_getters :: "string list" where
  "telemetry_getters =
     [''get4KStageTemperature'', ''getMagneticField'', ''getMagneticFieldSetPoint'',
      ''getSampleTemperature'', ''getUserTemperature'', ''getDerivativeGain'',
      ''getIntegralGain'', ''getProportionalGain'', ''getSampleHeaterMaximumPower'',
      ''getSampleHeaterPower'', ''getSampleHeaterResistance'',
      ''getSampleHeaterWireResistance'', ''getVtiHeaterPower'', ''getVtiTemperature'',
      ''getReservoirTsetColdSample'', ''getReservoirTsetWarmSample'',
      ''getReservoirTsetWarmMagnet'', ''getCryostatInPressure'',
      ''getCryostatOutPressure'', ''getDumpPressure'', ''getReservoirHeaterPower'',
      ''getReservoirTemperature'', ''get40KStageTemperature'', ''getPressure'',
      ''getTurbopumpFrequency'', ''getPressure800'', ''GetTurbopumpFrequ800'']"

text \<open>
  The variant-restricted operations: the methods whose docstring starts with the one
  variant they are for (\<open>ATTODRY1100 ONLY\<close>, \<open>ATTODRY2100 ONLY\<close>,
  \<open>ATTODRY800 ONLY\<close>), each with that variant.
\<close>

definition variant_restricted :: "(string \<times> Devices) list" where
  "variant_restricted =
     [(''getCryostatInPressure'', ATTODRY2100),
      (''getCryostatInValve'', ATTODRY2100),
      (''getCryostatOutValve'', ATTODRY2100),
      (''getDumpInValve'', ATTODRY2100),
      (''getDumpOutValve'', ATTODRY2100),
      (''getDumpPressure'', ATTODRY2100),
      (''getReservoirHeaterPower'', ATTODRY2100),
      (''getReservoirTemperature'', ATTODRY2100),
      (''toggleCryostatInValve'', ATTODRY2100),
      (''toggleCryostatOutValve'', ATTODRY2100),
      (''toggleDumpInValve'', ATTODRY2100),
      (''toggleDumpOutValve'', ATTODRY2100),
      (''get40KStageTemperature'', ATTODRY1100),
      (''getHeliumValve'', ATTODRY1100),
      (''getInnerVolumeValve'', ATTODRY1100),
      (''getOuterVolumeValve'', ATTODRY1100),
      (''getPressure'', ATTODRY1100),
      (''getPumpValve'', ATTODRY1100),
      (''getTurbopumpFrequency'', ATTODRY1100),
      (''toggleHeliumValve'', ATTODRY1100),
      (''toggleInnerVolumeValve'', ATTODRY1100),
      (''toggleOuterVolumeValve'', ATTODRY1100),
      (''togglePumpValve'', ATTODRY1100),
      (''getBreakVac800Valve'', ATTODRY800),
      (''toggleSampleSpace800Valve'', ATTODRY800),
      (''getPump800Valve'', ATTODRY800),
      (''getSampleSpace800Valve'', ATTODRY800),
      (''togglePump800Valve'', ATTODRY800),
      (''toggleBreakVac800Valve'', ATTODRY800),
      (''getPressure800'', ATTODRY800),
      (''GetTurbopumpFrequ800'', ATTODRY800)]"

text \<open>
  Among them, the toggles (bodies of one driver call without arguments) and the getters
  that read a \<^verbatim>\<open>c_float\<close>; the others are the getters that read a \<^verbatim>\<open>c_int\<close>.
\<close>

definition restricted_toggles :: "string list" where
  "restricted_toggles =
     [''toggleCryostatInValve'', ''toggleCryostatOutValve'', ''toggleDumpInValve'',
      ''toggleDumpOutValve'', ''toggleHeliumValve'', ''toggleInnerVolumeValve'',
      ''toggleOuterVolumeValve'', ''togglePumpValve'', ''toggleSampleSpace800Valve'',
      ''togglePump800Valve'', ''toggleBreakVac800Valve'']"

definition restricted_float_getters :: "string list" where
  "restricted_float_getters =
     [''getCryostatInPressure'', ''getDumpPressure'', ''getReservoirHeaterPower'',
      ''getReservoirTemperature'', ''get40KStageTemperature'', ''getPressure'',
      ''getTurbopumpFrequency'', ''getPressure800'', ''GetTurbopumpFrequ800'']"

text \<open>
  The driver entry point that the body of a variant-restricted operation calls: the one
  of the operation's own name, but for \<open>getBreakVac800Valve\<close>, whose body calls
  \<^verbatim>\<open>adryLib.getTurbopumpFrequency\<close>.
\<close>

definition restricted_entry :: "string \<Rightarrow> string" where
  "restricted_entry name =
     (if name = ''getBreakVac800Valve'' then ''getTurbopumpFrequency'' else name)"

section \<open>A test double for the driver\<close>

text \<open>
  The pass-through driver of the specification's testable properties: a store that a
  setter writes and the matching getter reads back, with a flag for the connection, two
  message texts that differ, and the list of the curve uploads it was asked for.
\<close>

record mock =
  started :: bool
  connected :: bool
  user_temperature :: "32 word"
  sample_temperature :: "32 word"
  turbopump_frequency :: "32 word"
  break_vac_valve :: "32 word"
  helium_valve :: bool
  action_message :: "byte list"
  error_message :: "byte list"
  uploads :: "(int \<times> byte list) list"

definition mock_entry :: "string \<Rightarrow> arg list \<Rightarrow> mock \<Rightarrow> mock" where
  "mock_entry name args d =
     (if name = ''begin'' then d\<lparr>started := True\<rparr>
      else if name = ''end'' then d\<lparr>started := False\<rparr>
      else if name = ''Connect'' then d\<lparr>connected := True\<rparr>
      else if name = ''Disconnect'' then d\<lparr>connected := False\<rparr>
      else if name = ''toggleHeliumValve'' then d\<lparr>helium_valve := \<not> helium_valve d\<rparr>
      else if name = ''setUserTemperature'' then
        (case args of [C_float w] \<Rightarrow> d\<lparr>user_temperature := w\<rparr> | _ \<Rightarrow> d)
      else if name = ''uploadTemperatureCalibrationCurve'' then
        (case args of [Py_int n, Py_bytes p] \<Rightarrow> d\<lparr>uploads := uploads d @ [(n, p)]\<rparr> | _ \<Rightarrow> d)
      else d)"

definition mock_entry_out32 :: "string \<Rightarrow> 32 word \<Rightarrow> mock \<Rightarrow> 32 word \<times> mock" where
  "mock_entry_out32 name w d =
     (if name = ''isDeviceConnected'' then (if connected d then 1 else 0, d)
      else if name = ''getUserTemperature'' then (user_temperature d, d)
      else if name = ''getSampleTemperature'' then (sample_temperature d, d)
      else if name = ''getTurbopumpFrequency'' then (turbopump_frequency d, d)
      else if name = ''getBreakVac800Valve'' then (break_vac_valve d, d)
      else (w, d))"

definition mock_entry_outbuf ::
  "string \<Rightarrow> byte list \<Rightarrow> 32 word \<Rightarrow> mock \<Rightarrow> byte list \<times> mock" where
  "mock_entry_outbuf name buf c_length d =
     (if name = ''getActionMessage'' then (action_message d, d)
      else if name = ''getAttodryErrorMessage'' then (error_message d, d)
      else ([], d))"

definition mock_driver :: "mock driver" where
  "mock_driver =
     \<lparr>entry = mock_entry, entry_out32 = mock_entry_out32, entry_outbuf = mock_entry_outbuf\<rparr>"

text \<open>
  The mock at rest: nothing started, the sample at 4.0 K, the turbopump at 1000.0 Hz, the
  action message \<open>Cooling\<close> and the error message \<open>No error\<close>.
\<close>

definition mock0 :: mock where
  "mock0 =
     \<lparr>started = False, connected = False, user_temperature = 0,
      sample_temperature = 0x40800000, turbopump_frequency = 0x447A0000,
      break_vac_valve = 1, helium_valve = False,
      action_message = map byte_of [67, 111, 111, 108, 105, 110, 103],
      error_message = map byte_of [78, 111, 32, 101, 114, 114, 111, 114],
      uploads = []\<rparr>"

text \<open>A freshly constructed Facade on the mock: no driver call has been made.\<close>

definition fresh :: "Devices \<Rightarrow> pystr \<Rightarrow> mock state" where
  "fresh v p = \<lparr>facade = init_AttoDRY v p, driver_state = mock0, calls = []\<rparr>"

text \<open>The connection identifier \<open>COM5\<close> and the path \<open>a.crv\<close>.\<close>

definition COM5 :: pystr where
  "COM5 = [67, 79, 77, 53]"

definition a_crv :: pystr where
  "a_crv = [97, 46, 99, 114, 118]"

text \<open>The session after \<^verbatim>\<open>begin()\<close> and \<^verbatim>\<open>Connect()\<close> on a fresh ATTODRY2100 Facade.\<close>

definition begun_session :: "mock state" where
  "begun_session = snd (begin_method mock_driver (fresh ATTODRY2100 COM5))"

definition connected_session :: "mock state" where
  "connected_session = snd (Connect mock_driver begun_session)"

section \<open>Single precision round trip\<close>

text \<open>
  Widening a single to a double and converting the double back gives the single again,
  for every single that is not a NaN.
\<close>

lemma top_bit_bounds: "0 < n \<Longrightarrow> 2 ^ top_bit n \<le> n \<and> n < 2 * 2 ^ top_bit n"
proof (induction n rule: top_bit.induct)
  case (1 n)
  show ?case
  proof (cases "n < 2")
    case True
    then have "top_bit n = 0" by (subst top_bit.simps) simp
    with 1 True show ?thesis by simp
  next
    case False
    then have "0 < n div 2" by simp
    with 1 False have ih: "2 ^ top_bit (n div 2) \<le> n div 2 \<and> n div 2 < 2 * 2 ^ top_bit (n div 2)"
      by simp
    have tb: "top_bit n = Suc (top_bit (n div 2))"
      using False by (subst top_bit.simps) simp
    from ih show ?thesis unfolding tb by simp linarith
  qed
qed

lemma round_shift_exact: "round_shift (a * 2 ^ k) k = a"
  by (simp add: round_shift_def)

lemma split_fields:
  fixes f :: nat
  assumes "f < 2 ^ k"
  shows "(a * 2 ^ k + f) div 2 ^ k = a" "(a * 2 ^ k + f) mod 2 ^ k = f"
  using assms by simp_all

lemma unat_mk_f64:
  assumes "s < 2" "e < 2048" "f < 2 ^ 52"
  shows "unat (mk_f64 s e f) = (s * 2 ^ 11 + e) * 2 ^ 52 + f"
proof -
  define x where "x = s * 2 ^ 63 + e * 2 ^ 52 + f"
  have "x < 2 ^ 64" unfolding x_def using assms by simp
  then have "unat (of_nat x :: 64 word) = x" by (simp add: unat_of_nat)
  then have "unat (mk_f64 s e f) = x" unfolding mk_f64_def x_def .
  then show ?thesis unfolding x_def by simp
qed

lemma f64_fields_mk:
  assumes "s < 2" "e < 2048" "f < 2 ^ 52"
  shows "f64_sign (mk_f64 s e f) = s" "f64_exp (mk_f64 s e f) = e" "f64_frac (mk_f64 s e f) = f"
proof -
  note u = unat_mk_f64 [OF assms]
  have d: "unat (mk_f64 s e f) div 2 ^ 52 = s * 2 ^ 11 + e"
    unfolding u using assms(3) by (rule split_fields)
  show "f64_frac (mk_f64 s e f) = f"
    unfolding f64_frac_def u using assms(3) by (rule split_fields)
  show "f64_exp (mk_f64 s e f) = e"
    unfolding f64_exp_def d using assms(2) split_fields(2) [of e 11 s] by simp
  have "unat (mk_f64 s e f) div 2 ^ 63 = unat (mk_f64 s e f) div 2 ^ 52 div 2 ^ 11"
    by (simp add: div_mult2_eq [symmetric])
  also have "\<dots> = s" unfolding d using assms(2) split_fields(1) [of e 11 s] by simp
  finally show "f64_sign (mk_f64 s e f) = s" by (simp add: f64_sign_def)
qed

lemma f32_fields_bounds: "f32_sign w < 2" "f32_exp w < 256" "f32_frac w < 2 ^ 23"
proof -
  have "unat w < 2 ^ 32" using unsigned_less [of w] by simp
  then show "f32_sign w < 2" by (simp add: f32_sign_def)
  show "f32_exp w < 256" by (simp add: f32_exp_def)
  show "f32_frac w < 2 ^ 23" by (simp add: f32_frac_def)
qed

lemma mk_f32_fields: "mk_f32 (f32_sign w) (f32_exp w) (f32_frac w) = w"
proof -
  define n where "n = unat w"
  have lt: "n < 2 ^ 32" unfolding n_def using unsigned_less [of w] by simp
  have c: "n mod 2 ^ 31 div 2 ^ 23 = n div 2 ^ 23 mod 2 ^ 8"
    using div_exp_mod_exp_eq [of n 23 8] by simp
  have d: "n mod 2 ^ 31 mod 2 ^ 23 = n mod 2 ^ 23"
    using mod_exp_eq [of n 31 23] by simp
  have "n div 2 ^ 31 * 2 ^ 31 + n div 2 ^ 23 mod 2 ^ 8 * 2 ^ 23 + n mod 2 ^ 23 =
      n div 2 ^ 31 * 2 ^ 31 + (n mod 2 ^ 31 div 2 ^ 23 * 2 ^ 23 + n mod 2 ^ 31 mod 2 ^ 23)"
    by (simp only: c d add.assoc)
  also have "\<dots> = n" by (simp only: div_mult_mod_eq)
  finally have "f32_sign w * 2 ^ 31 + f32_exp w * 2 ^ 23 + f32_frac w = n"
    unfolding f32_sign_def f32_exp_def f32_frac_def n_def [symmetric] .
  then have "mk_f32 (f32_sign w) (f32_exp w) (f32_frac w) = of_nat (unat w)"
    unfolding mk_f32_def n_def by (rule arg_cong)
  then show ?thesis by simp
qed

lemma top_bit_less: "0 < n \<Longrightarrow> n < 2 ^ k \<Longrightarrow> top_bit n < k"
proof -
  assume "0 < n" "n < 2 ^ k"
  then have "(2::nat) ^ top_bit n < 2 ^ k" using top_bit_bounds [of n] by linarith
  then show ?thesis by simp
qed

lemma c_float_roundtrip:
  assumes "\<not> f32_is_nan w"
  shows "c_float (c_float_value w) = w"
proof -
  note bs = f32_fields_bounds [of w]
  consider (inf) "f32_exp w = 255" "f32_frac w = 0"
    | (zero) "f32_exp w = 0" "f32_frac w = 0"
    | (sub) "f32_exp w = 0" "0 < f32_frac w"
    | (norm) "0 < f32_exp w" "f32_exp w < 255"
    using assms bs(2) unfolding f32_is_nan_def by linarith
  then have "c_float (c_float_value w) = mk_f32 (f32_sign w) (f32_exp w) (f32_frac w)"
  proof cases
    case inf
    then show ?thesis
      using bs(1) by (simp add: c_float_value_def c_float_def f64_fields_mk)
  next
    case zero
    then show ?thesis
      using bs(1) by (simp add: c_float_value_def c_float_def f64_fields_mk)
  next
    case sub
    define k where "k = top_bit (f32_frac w)"
    define f where "f = f32_frac w"
    have k: "k < 23" unfolding k_def using sub(2) bs(3) by (rule top_bit_less)
    have tb: "2 ^ k \<le> f" "f < 2 * 2 ^ k"
      unfolding k_def f_def using top_bit_bounds [OF sub(2)] by simp_all
    have fr: "(f - 2 ^ k) * 2 ^ (52 - k) < 2 ^ 52"
    proof -
      have "f - 2 ^ k < 2 ^ k" using tb by simp
      then have "(f - 2 ^ k) * 2 ^ (52 - k) < 2 ^ k * 2 ^ (52 - k)" by simp
      also have "\<dots> = 2 ^ 52" using k by (simp flip: power_add)
      finally show ?thesis .
    qed
    have v: "c_float_value w = mk_f64 (f32_sign w) (k + 874) ((f - 2 ^ k) * 2 ^ (52 - k))"
      using sub by (simp add: c_float_value_def k_def f_def)
    have e: "k + 874 < 2048" using k by simp
    note fl = f64_fields_mk [OF bs(1) e fr]
    have m: "2 ^ 52 + (f - 2 ^ k) * 2 ^ (52 - k) = f * 2 ^ (52 - k)"
    proof -
      have "(2::nat) ^ 52 = 2 ^ k * 2 ^ (52 - k)" using k by (simp flip: power_add)
      then have "2 ^ 52 + (f - 2 ^ k) * 2 ^ (52 - k) = (2 ^ k + (f - 2 ^ k)) * 2 ^ (52 - k)"
        by (simp only: add_mult_distrib)
      then show ?thesis using tb(1) by simp
    qed
    have "c_float (c_float_value w) = mk_f32 (f32_sign w) 0 (round_shift (f * 2 ^ (52 - k)) (52 - k))"
      unfolding v c_float_def fl using k by (simp add: m [simplified])
    then show ?thesis using sub(1) by (simp add: round_shift_exact f_def)
  next
    case norm
    have fr: "f32_frac w * 2 ^ 29 < 2 ^ 52" using bs(3) by simp
    have e: "f32_exp w + 896 < 2048" using norm by simp
    have v: "c_float_value w = mk_f64 (f32_sign w) (f32_exp w + 896) (f32_frac w * 2 ^ 29)"
      using norm by (simp add: c_float_value_def)
    note fl = f64_fields_mk [OF bs(1) e fr]
    have m: "f32_exp w * 2 ^ 52 + f32_frac w * 2 ^ 29 = (f32_exp w * 2 ^ 23 + f32_frac w) * 2 ^ 29"
      by simp
    have r: "round_shift (f32_exp w * 2 ^ 52 + f32_frac w * 2 ^ 29) 29 = f32_exp w * 2 ^ 23 + f32_frac w"
      unfolding m by (rule round_shift_exact)
    have lt: "f32_exp w * 2 ^ 23 + f32_frac w < 255 * 2 ^ 23" using norm bs(3) by simp
    have "c_float (c_float_value w) = mk_f32 (f32_sign w) 0 (f32_exp w * 2 ^ 23 + f32_frac w)"
      unfolding v c_float_def fl using norm lt by (simp add: r [simplified])
    then show ?thesis by (simp add: mk_f32_def)
  qed
  then show ?thesis by (simp only: mk_f32_fields)
qed

section \<open>The driver calls, unfolded\<close>

lemma adry_call_fields:
  "facade (adry_call D name args st) = facade st"
  "driver_state (adry_call D name args st) = entry D name args (driver_state st)"
  "calls (adry_call D name args st) = calls st @ [(name, args)]"
  by (simp_all add: adry_call_def)

lemma adry_call_byref_c_float_eq:
  "adry_call_byref_c_float D name w st =
     (fst (entry_out32 D name w (driver_state st)),
      st\<lparr>driver_state := snd (entry_out32 D name w (driver_state st)),
         calls := calls st @ [(name, [ByRef (C_float w)])]\<rparr>)"
  by (simp add: adry_call_byref_c_float_def split_beta)

lemma adry_call_byref_c_int_eq:
  "adry_call_byref_c_int D name w st =
     (fst (entry_out32 D name w (driver_state st)),
      st\<lparr>driver_state := snd (entry_out32 D name w (driver_state st)),
         calls := calls st @ [(name, [ByRef (C_int w)])]\<rparr>)"
  by (simp add: adry_call_byref_c_int_def split_beta)

lemma adry_call_byref_buffer_eq:
  "adry_call_byref_buffer D name buf n st =
     (take (length buf)
        (fst (entry_outbuf D name buf n (driver_state st)) @
         drop (length (fst (entry_outbuf D name buf n (driver_state st)))) buf),
      st\<lparr>driver_state := snd (entry_outbuf D name buf n (driver_state st)),
         calls := calls st @ [(name, [ByRef (C_char_array buf), C_int n])]\<rparr>)"
  by (simp add: adry_call_byref_buffer_def split_beta)

section \<open>The sessions on the test double\<close>

lemmas mock_simps =
  mock_driver_def mock_entry_def mock_entry_out32_def mock_entry_outbuf_def mock0_def
  fresh_def init_AttoDRY_def COM5_def a_crv_def byte_of_def bytes_append_def str_cons_def
  c_string_value_def adry_call_def adry_call_byref_c_int_eq adry_call_byref_c_float_eq
  adry_call_byref_buffer_eq c_int_def c_int_value_def c_uint16_def c_uint16_value_def

lemma begun_session_eq:
  "begun_session =
     \<lparr>facade = \<lparr>setup_version = ATTODRY2100, com_port = COM5\<rparr>,
      driver_state = mock0\<lparr>started := True\<rparr>,
      calls = [(''begin'', [Py_int 1])]\<rparr>"
  by (simp add: begun_session_def begin_method_def mock_simps)

lemma connected_session_eq:
  "connected_session =
     \<lparr>facade = \<lparr>setup_version = ATTODRY2100, com_port = COM5\<rparr>,
      driver_state = mock0\<lparr>started := True, connected := True\<rparr>,
      calls = [(''begin'', [Py_int 1]), (''Connect'', [Py_bytes [67, 79, 77, 53]])]\<rparr>"
  by (simp add: connected_session_def begun_session_eq Connect_def mock_simps)

section \<open>The method table\<close>

lemma map_of_if: "map_of ((k, v) # kvs) x = (if x = k then Some v else map_of kvs x)"
  by simp

lemmas lookup_simps =
  map_of_if map_of.simps(1) list.inject list.distinct char.inject simp_thms if_True if_False

lemma call_method_lookup:
  "map_of (methods D) name = Some m \<Longrightarrow> call_method D name args st = m args st"
  by (simp add: call_method_def)

lemma lookup_methods:
  "map_of (methods D) ''begin'' = Some (no_args (begin_method D))"
  "map_of (methods D) ''Connect'' = Some (no_args (Connect D))"
  "map_of (methods D) ''Disconnect'' = Some (no_args (Disconnect D))"
  "map_of (methods D) ''end'' = Some (no_args (end_method D))"
  "map_of (methods D) ''Cancel'' = Some (no_args (Cancel D))"
  "map_of (methods D) ''Confirm'' = Some (no_args (Confirm D))"
  "map_of (methods D) ''getActionMessage'' = Some (length_arg (getActionMessage D))"
  "map_of (methods D) ''getAttodryErrorMessage'' = Some (length_arg (getAttodryErrorMessage D))"
  "map_of (methods D) ''getAttodryErrorStatus'' = Some (no_args (getAttodryErrorStatus D))"
  "map_of (methods D) ''isControllingField'' = Some (no_args (isControllingField D))"
  "map_of (methods D) ''isControllingTemperature'' = Some (no_args (isControllingTemperature D))"
  "map_of (methods D) ''isPersistentModeSet'' = Some (no_args (isPersistentModeSet D))"
  "map_of (methods D) ''isDeviceInitialised'' = Some (no_args (isDeviceInitialised D))"
  "map_of (methods D) ''isDeviceConnected'' = Some (no_args (isDeviceConnected D))"
  "map_of (methods D) ''toggleMagneticFieldControl'' = Some (no_args (toggleMagneticFieldControl D))"
  "map_of (methods D) ''togglePersistentMode'' = Some (no_args (togglePersistentMode D))"
  "map_of (methods D) ''toggleSampleTemperatureControl'' = Some (no_args (toggleSampleTemperatureControl D))"
  "map_of (methods D) ''toggleFullTemperatureControl'' = Some (no_args (toggleFullTemperatureControl D))"
  "map_of (methods D) ''goToBaseTemperature'' = Some (no_args (goToBaseTemperature D))"
  "map_of (methods D) ''get4KStageTemperature'' = Some (no_args (get4KStageTemperature D))"
  "map_of (methods D) ''getMagneticField'' = Some (no_args (getMagneticField D))"
  "map_of (methods D) ''getMagneticFieldSetPoint'' = Some (no_args (getMagneticFieldSetPoint D))"
  "map_of (methods D) ''getSampleTemperature'' = Some (no_args (getSampleTemperature D))"
  "map_of (methods D) ''getUserTemperature'' = Some (no_args (getUserTemperature D))"
  "map_of (methods D) ''setUserMagneticField'' = Some (float_arg (setUserMagneticField D))"
  "map_of (methods D) ''setUserTemperature'' = Some (float_arg (setUserTemperature D))"
  "map_of (methods D) ''downloadSampleTemperatureSensorCalibrationCurve'' = Some (path_arg (downloadSampleTemperatureSensorCalibrationCurve D))"
  "map_of (methods D) ''downloadTemperatureSensorCalibrationCurve'' = Some (number_path_arg (downloadTemperatureSensorCalibrationCurve D))"
  "map_of (methods D) ''getDerivativeGain'' = Some (no_args (getDerivativeGain D))"
  "map_of (methods D) ''getIntegralGain'' = Some (no_args (getIntegralGain D))"
  "map_of (methods D) ''getProportionalGain'' = Some (no_args (getProportionalGain D))"
  "map_of (methods D) ''getSampleHeaterMaximumPower'' = Some (no_args (getSampleHeaterMaximumPower D))"
  "map_of (methods D) ''getSampleHeaterPower'' = Some (no_args (getSampleHeaterPower D))"
  "map_of (methods D) ''getSampleHeaterResistance'' = Some (no_args (getSampleHeaterResistance D))"
  "map_of (methods D) ''getSampleHeaterWireResistance'' = Some (no_args (getSampleHeaterWireResistance D))"
  "map_of (methods D) ''getVtiHeaterPower'' = Some (no_args (getVtiHeaterPower D))"
  "map_of (methods D) ''getVtiTemperature'' = Some (no_args (getVtiTemperature D))"
  "map_of (methods D) ''isGoingToBaseTemperature'' = Some (no_args (isGoingToBaseTemperature D))"
  "map_of (methods D) ''isPumping'' = Some (no_args (isPumping D))"
  "map_of (methods D) ''isSampleExchangeInProgress'' = Some (no_args (isSampleExchangeInProgress D))"
  "map_of (methods D) ''isSampleHeaterOn'' = Some (no_args (isSampleHeaterOn D))"
  "map_of (methods D) ''isSampleReadyToExchange'' = Some (no_args (isSampleReadyToExchange D))"
  "map_of (methods D) ''isSystemRunning'' = Some (no_args (isSystemRunning D))"
  "map_of (methods D) ''isZeroingField'' = Some (no_args (isZeroingField D))"
  "map_of (methods D) ''lowerError'' = Some (no_args (lowerError D))"
  "map_of (methods D) ''querySampleHeaterMaximumPower'' = Some (no_args (querySampleHeaterMaximumPower D))"
  "map_of (methods D) ''querySampleHeaterResistance'' = Some (no_args (querySampleHeaterResistance D))"
  "map_of (methods D) ''querySampleHeaterWireResistance'' = Some (no_args (querySampleHeaterWireResistance D))"
  "map_of (methods D) ''setDerivativeGain'' = Some (float_arg (setDerivativeGain D))"
  "map_of (methods D) ''setIntegralGain'' = Some (float_arg (setIntegralGain D))"
  "map_of (methods D) ''setProportionalGain'' = Some (float_arg (setProportionalGain D))"
  "map_of (methods D) ''setSampleHeaterMaximumPower'' = Some (float_arg (setSampleHeaterMaximumPower D))"
  "map_of (methods D) ''setSampleHeaterWireResistance'' = Some (float_arg (setSampleHeaterWireResistance D))"
  "map_of (methods D) ''setSampleHeaterPower'' = Some (float_arg (setSampleHeaterPower D))"
  "map_of (methods D) ''setSampleHeaterResistance'' = Some (float_arg (setSampleHeaterResistance D))"
  "map_of (methods D) ''startLogging'' = Some (logging_arg (startLogging D))"
  "map_of (methods D) ''startSampleExchange'' = Some (no_args (startSampleExchange D))"
  "map_of (methods D) ''stopLogging'' = Some (no_args (stopLogging D))"
  "map_of (methods D) ''sweepFieldToZero'' = Some (no_args (sweepFieldToZero D))"
  "map_of (methods D) ''togglePump'' = Some (no_args (togglePump D))"
  "map_of (methods D) ''toggleStartUpShutdown'' = Some (no_args (toggleStartUpShutdown D))"
  "map_of (methods D) ''uploadSampleTemperatureCalibrationCurve'' = Some (path_arg (uploadSampleTemperatureCalibrationCurve D))"
  "map_of (methods D) ''uploadTemperatureCalibrationCurve'' = Some (path_number_arg (uploadTemperatureCalibrationCurve D))"
  "map_of (methods D) ''setVTIHeaterPower'' = Some (float_arg (setVTIHeaterPower D))"
  "map_of (methods D) ''queryReservoirTsetColdSample'' = Some (no_args (queryReservoirTsetColdSample D))"
  "map_of (methods D) ''getReservoirTsetColdSample'' = Some (no_args (getReservoirTsetColdSample D))"
  "map_of (methods D) ''setReservoirTsetWarmMagnet'' = Some (float_arg (setReservoirTsetWarmMagnet D))"
  "map_of (methods D) ''setReservoirTsetColdSample'' = Some (float_arg (setReservoirTsetColdSample D))"
  "map_of (methods D) ''setReservoirTsetWarmSample'' = Some (float_arg (setReservoirTsetWarmSample D))"
  "map_of (methods D) ''queryReservoirTsetWarmSample'' = Some (no_args (queryReservoirTsetWarmSample D))"
  "map_of (methods D) ''queryReservoirTsetWarmMagnet'' = Some (no_args (queryReservoirTsetWarmMagnet D))"
  "map_of (methods D) ''getReservoirTsetWarmSample'' = Some (no_args (getReservoirTsetWarmSample D))"
  "map_of (methods D) ''getReservoirTsetWarmMagnet'' = Some (no_args (getReservoirTsetWarmMagnet D))"
  "map_of (methods D) ''getCryostatInPressure'' = Some (no_args (getCryostatInPressure D))"
  "map_of (methods D) ''getCryostatInValve'' = Some (no_args (getCryostatInValve D))"
  "map_of (methods D) ''getCryostatOutPressure'' = Some (no_args (getCryostatOutPressure D))"
  "map_of (methods D) ''getCryostatOutValve'' = Some (no_args (getCryostatOutValve D))"
  "map_of (methods D) ''getDumpInValve'' = Some (no_args (getDumpInValve D))"
  "map_of (methods D) ''getDumpOutValve'' = Some (no_args (getDumpOutValve D))"
  "map_of (methods D) ''getDumpPressure'' = Some (no_args (getDumpPressure D))"
  "map_of (methods D) ''getReservoirHeaterPower'' = Some (no_args (getReservoirHeaterPower D))"
  "map_of (methods D) ''getReservoirTemperature'' = Some (no_args (getReservoirTemperature D))"
  "map_of (methods D) ''toggleCryostatInValve'' = Some (no_args (toggleCryostatInValve D))"
  "map_of (methods D) ''toggleCryostatOutValve'' = Some (no_args (toggleCryostatOutValve D))"
  "map_of (methods D) ''toggleDumpInValve'' = Some (no_args (toggleDumpInValve D))"
  "map_of (methods D) ''toggleDumpOutValve'' = Some (no_args (toggleDumpOutValve D))"
  "map_of (methods D) ''get40KStageTemperature'' = Some (no_args (get40KStageTemperature D))"
  "map_of (methods D) ''getHeliumValve'' = Some (no_args (getHeliumValve D))"
  "map_of (methods D) ''getInnerVolumeValve'' = Some (no_args (getInnerVolumeValve D))"
  "map_of (methods D) ''getOuterVolumeValve'' = Some (no_args (getOuterVolumeValve D))"
  "map_of (methods D) ''getPressure'' = Some (no_args (getPressure D))"
  "map_of (methods D) ''getPumpValve'' = Some (no_args (getPumpValve D))"
  "map_of (methods D) ''getTurbopumpFrequency'' = Some (no_args (getTurbopumpFrequency D))"
  "map_of (methods D) ''isExchangeHeaterOn'' = Some (no_args (isExchangeHeaterOn D))"
  "map_of (methods D) ''toggleExchangeHeaterControl'' = Some (no_args (toggleExchangeHeaterControl D))"
  "map_of (methods D) ''toggleHeliumValve'' = Some (no_args (toggleHeliumValve D))"
  "map_of (methods D) ''toggleInnerVolumeValve'' = Some (no_args (toggleInnerVolumeValve D))"
  "map_of (methods D) ''toggleOuterVolumeValve'' = Some (no_args (toggleOuterVolumeValve D))"
  "map_of (methods D) ''togglePumpValve'' = Some (no_args (togglePumpValve D))"
  "map_of (methods D) ''getBreakVac800Valve'' = Some (no_args (getBreakVac800Valve D))"
  "map_of (methods D) ''toggleSampleSpace800Valve'' = Some (no_args (toggleSampleSpace800Valve D))"
  "map_of (methods D) ''getPump800Valve'' = Some (no_args (getPump800Valve D))"
  "map_of (methods D) ''getSampleSpace800Valve'' = Some (no_args (getSampleSpace800Valve D))"
  "map_of (methods D) ''togglePump800Valve'' = Some (no_args (togglePump800Valve D))"
  "map_of (methods D) ''toggleBreakVac800Valve'' = Some (no_args (toggleBreakVac800Valve D))"
  "map_of (methods D) ''getPressure800'' = Some (no_args (getPressure800 D))"
  "map_of (methods D) ''GetTurbopumpFrequ800'' = Some (no_args (GetTurbopumpFrequ800 D))"
  unfolding methods_def by (simp_all only: lookup_simps)

lemmas call_simps = lookup_methods [THEN call_method_lookup]

lemmas method_defs =
  begin_method_def Connect_def Disconnect_def end_method_def Cancel_def Confirm_def
  getActionMessage_def getAttodryErrorMessage_def getAttodryErrorStatus_def
  isControllingField_def isControllingTemperature_def isPersistentModeSet_def
  isDeviceInitialised_def isDeviceConnected_def toggleMagneticFieldControl_def
  togglePersistentMode_def toggleSampleTemperatureControl_def
  toggleFullTemperatureControl_def goToBaseTemperature_def get4KStageTemperature_def
  getMagneticField_def getMagneticFieldSetPoint_def getSampleTemperature_def
  getUserTemperature_def setUserMagneticField_def setUserTemperature_def
  downloadSampleTemperatureSensorCalibrationCurve_def
  downloadTemperatureSensorCalibrationCurve_def getDerivativeGain_def getIntegralGain_def
  getProportionalGain_def getSampleHeaterMaximumPower_def getSampleHeaterPower_def
  getSampleHeaterResistance_def getSampleHeaterWireResistance_def getVtiHeaterPower_def
  getVtiTemperature_def isGoingToBaseTemperature_def isPumping_def
  isSampleExchangeInProgress_def isSampleHeaterOn_def isSampleReadyToExchange_def
  isSystemRunning_def isZeroingField_def lowerError_def querySampleHeaterMaximumPower_def
  querySampleHeaterResistance_def querySampleHeaterWireResistance_def setDerivativeGain_def
  setIntegralGain_def setProportionalGain_def setSampleHeaterMaximumPower_def
  setSampleHeaterWireResistance_def setSampleHeaterPower_def setSampleHeaterResistance_def
  startLogging_def startSampleExchange_def stopLogging_def sweepFieldToZero_def
  togglePump_def toggleStartUpShutdown_def uploadSampleTemperatureCalibrationCurve_def
  uploadTemperatureCalibrationCurve_def setVTIHeaterPower_def
  queryReservoirTsetColdSample_def getReservoirTsetColdSample_def
  setReservoirTsetWarmMagnet_def setReservoirTsetColdSample_def
  setReservoirTsetWarmSample_def queryReservoirTsetWarmSample_def
  queryReservoirTsetWarmMagnet_def getReservoirTsetWarmSample_def
  getReservoirTsetWarmMagnet_def getCryostatInPressure_def getCryostatInValve_def
  getCryostatOutPressure_def getCryostatOutValve_def getDumpInValve_def getDumpOutValve_def
  getDumpPressure_def getReservoirHeaterPower_def getReservoirTemperature_def
  toggleCryostatInValve_def toggleCryostatOutValve_def toggleDumpInValve_def
  toggleDumpOutValve_def get40KStageTemperature_def getHeliumValve_def
  getInnerVolumeValve_def getOuterVolumeValve_def getPressure_def getPumpValve_def
  getTurbopumpFrequency_def isExchangeHeaterOn_def toggleExchangeHeaterControl_def
  toggleHeliumValve_def toggleInnerVolumeValve_def toggleOuterVolumeValve_def
  togglePumpValve_def getBreakVac800Valve_def toggleSampleSpace800Valve_def
  getPump800Valve_def getSampleSpace800Valve_def togglePump800Valve_def
  toggleBreakVac800Valve_def getPressure800_def GetTurbopumpFrequ800_def

lemma methods_keep_facade:
  "facade (snd (begin_method D st)) = facade st"
  "facade (snd (Connect D st)) = facade st"
  "facade (snd (Disconnect D st)) = facade st"
  "facade (snd (end_method D st)) = facade st"
  "facade (snd (Cancel D st)) = facade st"
  "facade (snd (Confirm D st)) = facade st"
  "facade (snd (getActionMessage D length' st)) = facade st"
  "facade (snd (getAttodryErrorMessage D length' st)) = facade st"
  "facade (snd (getAttodryErrorStatus D st)) = facade st"
  "facade (snd (isControllingField D st)) = facade st"
  "facade (snd (isControllingTemperature D st)) = facade st"
  "facade (snd (isPersistentModeSet D st)) = facade st"
  "facade (snd (isDeviceInitialised D st)) = facade st"
  "facade (snd (isDeviceConnected D st)) = facade st"
  "facade (snd (toggleMagneticFieldControl D st)) = facade st"
  "facade (snd (togglePersistentMode D st)) = facade st"
  "facade (snd (toggleSampleTemperatureControl D st)) = facade st"
  "facade (snd (toggleFullTemperatureControl D st)) = facade st"
  "facade (snd (goToBaseTemperature D st)) = facade st"
  "facade (snd (get4KStageTemperature D st)) = facade st"
  "facade (snd (getMagneticField D st)) = facade st"
  "facade (snd (getMagneticFieldSetPoint D st)) = facade st"
  "facade (snd (getSampleTemperature D st)) = facade st"
  "facade (snd (getUserTemperature D st)) = facade st"
  "facade (snd (setUserMagneticField D x st)) = facade st"
  "facade (snd (setUserTemperature D x st)) = facade st"
  "facade (snd (downloadSampleTemperatureSensorCalibrationCurve D savepath st)) = facade st"
  "facade (snd (downloadTemperatureSensorCalibrationCurve D user_curve_number savepath st)) = facade st"
  "facade (snd (getDerivativeGain D st)) = facade st"
  "facade (snd (getIntegralGain D st)) = facade st"
  "facade (snd (getProportionalGain D st)) = facade st"
  "facade (snd (getSampleHeaterMaximumPower D st)) = facade st"
  "facade (snd (getSampleHeaterPower D st)) = facade st"
  "facade (snd (getSampleHeaterResistance D st)) = facade st"
  "facade (snd (getSampleHeaterWireResistance D st)) = facade st"
  "facade (snd (getVtiHeaterPower D st)) = facade st"
  "facade (snd (getVtiTemperature D st)) = facade st"
  "facade (snd (isGoingToBaseTemperature D st)) = facade st"
  "facade (snd (isPumping D st)) = facade st"
  "facade (snd (isSampleExchangeInProgress D st)) = facade st"
  "facade (snd (isSampleHeaterOn D st)) = facade st"
  "facade (snd (isSampleReadyToExchange D st)) = facade st"
  "facade (snd (isSystemRunning D st)) = facade st"
  "facade (snd (isZeroingField D st)) = facade st"
  "facade (snd (lowerError D st)) = facade st"
  "facade (snd (querySampleHeaterMaximumPower D st)) = facade st"
  "facade (snd (querySampleHeaterResistance D st)) = facade st"
  "facade (snd (querySampleHeaterWireResistance D st)) = facade st"
  "facade (snd (setDerivativeGain D x st)) = facade st"
  "facade (snd (setIntegralGain D x st)) = facade st"
  "facade (snd (setProportionalGain D x st)) = facade st"
  "facade (snd (setSampleHeaterMaximumPower D x st)) = facade st"
  "facade (snd (setSampleHeaterWireResistance D x st)) = facade st"
  "facade (snd (setSampleHeaterPower D x st)) = facade st"
  "facade (snd (setSampleHeaterResistance D x st)) = facade st"
  "facade (snd (startLogging D savepath time_selection append' st)) = facade st"
  "facade (snd (startSampleExchange D st)) = facade st"
  "facade (snd (stopLogging D st)) = facade st"
  "facade (snd (sweepFieldToZero D st)) = facade st"
  "facade (snd (togglePump D st)) = facade st"
  "facade (snd (toggleStartUpShutdown D st)) = facade st"
  "facade (snd (uploadSampleTemperatureCalibrationCurve D loadpath st)) = facade st"
  "facade (snd (uploadTemperatureCalibrationCurve D loadpath user_curve_number st)) = facade st"
  "facade (snd (setVTIHeaterPower D x st)) = facade st"
  "facade (snd (queryReservoirTsetColdSample D st)) = facade st"
  "facade (snd (getReservoirTsetColdSample D st)) = facade st"
  "facade (snd (setReservoirTsetWarmMagnet D x st)) = facade st"
  "facade (snd (setReservoirTsetColdSample D x st)) = facade st"
  "facade (snd (setReservoirTsetWarmSample D x st)) = facade st"
  "facade (snd (queryReservoirTsetWarmSample D st)) = facade st"
  "facade (snd (queryReservoirTsetWarmMagnet D st)) = facade st"
  "facade (snd (getReservoirTsetWarmSample D st)) = facade st"
  "facade (snd (getReservoirTsetWarmMagnet D st)) = facade st"
  "facade (snd (getCryostatInPressure D st)) = facade st"
  "facade (snd (getCryostatInValve D st)) = facade st"
  "facade (snd (getCryostatOutPressure D st)) = facade st"
  "facade (snd (getCryostatOutValve D st)) = facade st"
  "facade (snd (getDumpInValve D st)) = facade st"
  "facade (snd (getDumpOutValve D st)) = facade st"
  "facade (snd (getDumpPressure D st)) = facade st"
  "facade (snd (getReservoirHeaterPower D st)) = facade st"
  "facade (snd (getReservoirTemperature D st)) = facade st"
  "facade (snd (toggleCryostatInValve D st)) = facade st"
  "facade (snd (toggleCryostatOutValve D st)) = facade st"
  "facade (snd (toggleDumpInValve D st)) = facade st"
  "facade (snd (toggleDumpOutValve D st)) = facade st"
  "facade (snd (get40KStageTemperature D st)) = facade st"
  "facade (snd (getHeliumValve D st)) = facade st"
  "facade (snd (getInnerVolumeValve D st)) = facade st"
  "facade (snd (getOuterVolumeValve D st)) = facade st"
  "facade (snd (getPressure D st)) = facade st"
  "facade (snd (getPumpValve D st)) = facade st"
  "facade (snd (getTurbopumpFrequency D st)) = facade st"
  "facade (snd (isExchangeHeaterOn D st)) = facade st"
  "facade (snd (toggleExchangeHeaterControl D st)) = facade st"
  "facade (snd (toggleHeliumValve D st)) = facade st"
  "facade (snd (toggleInnerVolumeValve D st)) = facade st"
  "facade (snd (toggleOuterVolumeValve D st)) = facade st"
  "facade (snd (togglePumpValve D st)) = facade st"
  "facade (snd (getBreakVac800Valve D st)) = facade st"
  "facade (snd (toggleSampleSpace800Valve D st)) = facade st"
  "facade (snd (getPump800Valve D st)) = facade st"
  "facade (snd (getSampleSpace800Valve D st)) = facade st"
  "facade (snd (togglePump800Valve D st)) = facade st"
  "facade (snd (toggleBreakVac800Valve D st)) = facade st"
  "facade (snd (getPressure800 D st)) = facade st"
  "facade (snd (GetTurbopumpFrequ800 D st)) = facade st"
  by (simp_all add: method_defs adry_call_fields adry_call_byref_c_float_eq
      adry_call_byref_c_int_eq adry_call_byref_buffer_eq split_beta split: sum.splits)

lemma keeps_facade_no_args:
  "(\<And>st. facade (snd (m st)) = facade st) \<Longrightarrow> keeps_facade (no_args m)"
  by (auto simp add: keeps_facade_def no_args_def split: list.splits) (metis snd_conv)+

lemma keeps_facade_float_arg:
  "(\<And>x st. facade (snd (m x st)) = facade st) \<Longrightarrow> keeps_facade (float_arg m)"
  by (auto simp add: keeps_facade_def float_arg_def split: list.splits pyval.splits) (metis snd_conv)+

lemma keeps_facade_length_arg:
  "(\<And>n st. facade (snd (m n st)) = facade st) \<Longrightarrow> keeps_facade (length_arg m)"
  by (auto simp add: keeps_facade_def length_arg_def split: list.splits pyval.splits) (metis snd_conv)+

lemma keeps_facade_path_arg:
  "(\<And>p st. facade (snd (m p st)) = facade st) \<Longrightarrow> keeps_facade (path_arg m)"
  by (auto simp add: keeps_facade_def path_arg_def split: list.splits pyval.splits) (metis snd_conv)+

lemma keeps_facade_number_path_arg:
  "(\<And>n p st. facade (snd (m n p st)) = facade st) \<Longrightarrow> keeps_facade (number_path_arg m)"
  by (auto simp add: keeps_facade_def number_path_arg_def split: list.splits pyval.splits) (metis snd_conv)+

lemma keeps_facade_path_number_arg:
  "(\<And>p n st. facade (snd (m p n st)) = facade st) \<Longrightarrow> keeps_facade (path_number_arg m)"
  by (auto simp add: keeps_facade_def path_number_arg_def split: list.splits pyval.splits) (metis snd_conv)+

lemma keeps_facade_logging_arg:
  "(\<And>p n b st. facade (snd (m p n b st)) = facade st) \<Longrightarrow> keeps_facade (logging_arg m)"
  by (auto simp add: keeps_facade_def logging_arg_def split: list.splits pyval.splits) (metis snd_conv)+

lemmas keeps_facade_intros =
  keeps_facade_no_args keeps_facade_float_arg keeps_facade_length_arg keeps_facade_path_arg
  keeps_facade_number_path_arg keeps_facade_path_number_arg keeps_facade_logging_arg

lemma methods_all_keep_facade: "list_all (\<lambda>(name, m). keeps_facade m) (methods D)"
  unfolding methods_def list.pred_inject prod.case
  by (intro conjI list.pred_inject(1) TrueI keeps_facade_intros methods_keep_facade)

lemma call_method_keeps_facade:
  assumes "call_method D name args st = Some (r, st')"
  shows "facade st' = facade st"
proof -
  from assms obtain m where m: "map_of (methods D) name = Some m" and r: "m args st = Some (r, st')"
    by (auto simp add: call_method_def split: option.splits)
  from m have "(name, m) \<in> set (methods D)" by (rule map_of_SomeD)
  with methods_all_keep_facade [of D] have "keeps_facade m"
    by (auto simp add: list_all_iff)
  with r show ?thesis by (auto simp add: keeps_facade_def)
qed

section \<open>Lifecycle: end\<close>

text \<open>
  C1. For every state of the Facade and every driver, \<open>end()\<close> first asks the driver's
  \<open>isDeviceConnected\<close> and returns normally. If the device is reported as connected (a
  value that Python takes as true), the driver is called three times, in this order: the
  connection query, \<open>Disconnect\<close> exactly once, and \<open>end\<close>; the driver ends in the
  state its \<open>end\<close> gives after its \<open>Disconnect\<close>. If the device is reported as not
  connected, the driver is called twice, the connection query and \<open>end\<close>, and its
  \<open>Disconnect\<close> is not run.
\<close>

theorem end_method_disconnects_first:
  "fst (end_method D st) = Inr PyNone \<and>
   isDeviceConnected D st =
     (Inr (PyInt (c_int_value (fst (entry_out32 D ''isDeviceConnected'' 0 (driver_state st))))),
      st\<lparr>driver_state := snd (entry_out32 D ''isDeviceConnected'' 0 (driver_state st)),
         calls := calls st @ [(''isDeviceConnected'', [ByRef (C_int 0)])]\<rparr>) \<and>
   (fst (isDeviceConnected D st) = Inr v \<and> truthy v \<longrightarrow>
      end_method D st =
        (Inr PyNone,
         st\<lparr>driver_state :=
              entry D ''end'' []
                (entry D ''Disconnect'' []
                   (snd (entry_out32 D ''isDeviceConnected'' 0 (driver_state st)))),
            calls := calls st @
              [(''isDeviceConnected'', [ByRef (C_int 0)]), (''Disconnect'', []),
               (''end'', [])]\<rparr>)) \<and>
   (fst (isDeviceConnected D st) = Inr v \<and> \<not> truthy v \<longrightarrow>
      end_method D st =
        (Inr PyNone,
         st\<lparr>driver_state :=
              entry D ''end'' []
                (snd (entry_out32 D ''isDeviceConnected'' 0 (driver_state st))),
            calls := calls st @
              [(''isDeviceConnected'', [ByRef (C_int 0)]), (''end'', [])]\<rparr>))"
proof -
  have q: "isDeviceConnected D st =
     (Inr (PyInt (c_int_value (fst (entry_out32 D ''isDeviceConnected'' 0 (driver_state st))))),
      st\<lparr>driver_state := snd (entry_out32 D ''isDeviceConnected'' 0 (driver_state st)),
         calls := calls st @ [(''isDeviceConnected'', [ByRef (C_int 0)])]\<rparr>)"
    by (simp add: isDeviceConnected_def adry_call_byref_c_int_eq)
  show ?thesis
    unfolding q by (auto simp add: end_method_def q Disconnect_def adry_call_def)
qed

text \<open>
  On the test double: a connected session is disconnected once and then ended, which
  leaves the driver neither connected nor started; a session that was begun but never
  connected is ended without a disconnect.
\<close>

theorem end_method_disconnects_first_witness:
  "fst (isDeviceConnected mock_driver connected_session) = Inr (PyInt 1) \<and> truthy (PyInt 1) \<and>
   connected (driver_state connected_session) \<and> started (driver_state connected_session) \<and>
   end_method mock_driver connected_session =
     (Inr PyNone,
      connected_session
        \<lparr>driver_state := mock0\<lparr>started := False, connected := False\<rparr>,
         calls := calls connected_session @
           [(''isDeviceConnected'', [ByRef (C_int 0)]), (''Disconnect'', []), (''end'', [])]\<rparr>) \<and>
   fst (isDeviceConnected mock_driver begun_session) = Inr (PyInt 0) \<and> \<not> truthy (PyInt 0) \<and>
   end_method mock_driver begun_session =
     (Inr PyNone,
      begun_session
        \<lparr>driver_state := mock0\<lparr>started := False\<rparr>,
         calls := calls begun_session @
           [(''isDeviceConnected'', [ByRef (C_int 0)]), (''end'', [])]\<rparr>)"
proof -
  have c: "fst (isDeviceConnected mock_driver connected_session) = Inr (PyInt 1)"
    by (simp add: connected_session_eq isDeviceConnected_def mock_simps)
  have b: "fst (isDeviceConnected mock_driver begun_session) = Inr (PyInt 0)"
    by (simp add: begun_session_eq isDeviceConnected_def mock_simps)
  have dc: "entry mock_driver ''end'' []
      (entry mock_driver ''Disconnect'' []
         (snd (entry_out32 mock_driver ''isDeviceConnected'' 0 (driver_state connected_session)))) =
      mock0\<lparr>started := False, connected := False\<rparr>"
    by (simp add: connected_session_eq mock_simps)
  have db: "entry mock_driver ''end'' []
      (snd (entry_out32 mock_driver ''isDeviceConnected'' 0 (driver_state begun_session))) =
      mock0\<lparr>started := False\<rparr>"
    by (simp add: begun_session_eq mock_simps)
  have s: "connected (driver_state connected_session)" "started (driver_state connected_session)"
    by (simp_all add: connected_session_eq)
  show ?thesis
    using end_method_disconnects_first [of mock_driver connected_session "PyInt 1"]
      end_method_disconnects_first [of mock_driver begun_session "PyInt 0"] c b s
    by (simp add: dc db)
qed

section \<open>Telemetry getters\<close>

text \<open>
  C2, as amended. For every telemetry getter, every driver and every state of the
  session (before \<open>begin()\<close>, between \<open>begin()\<close> and \<open>Connect()\<close>, or connected),
  calling the getter makes one call to the driver's entry point of the same name, with a
  reference to a zero \<open>c_float\<close>, and returns the float the driver leaves there: the
  binding raises neither \<open>NotInitialized\<close> nor \<open>NotConnected\<close>.
\<close>

theorem telemetry_getter_forwards:
  "name \<in> set telemetry_getters \<Longrightarrow>
     call_method D name [] st =
       Some (Inr (PyFloat (c_float_value (fst (entry_out32 D name 0 (driver_state st))))),
             st\<lparr>driver_state := snd (entry_out32 D name 0 (driver_state st)),
                calls := calls st @ [(name, [ByRef (C_float 0)])]\<rparr>)"
  unfolding telemetry_getters_def
  by (auto simp add: call_simps no_args_def method_defs adry_call_byref_c_float_eq)

lemma four_kelvin: "c_float_value 0x40800000 = 0x4010000000000000"
  by (simp add: c_float_value_def f32_exp_def f32_frac_def f32_sign_def mk_f64_def)

text \<open>On the test double: \<open>getSampleTemperature()\<close> on a fresh Facade reads 4.0 K.\<close>

theorem telemetry_getter_forwards_witness:
  "''getSampleTemperature'' \<in> set telemetry_getters \<and>
   call_method mock_driver ''getSampleTemperature'' [] (fresh ATTODRY2100 COM5) =
     Some (Inr (PyFloat 0x4010000000000000),
           (fresh ATTODRY2100 COM5)
             \<lparr>calls := [(''getSampleTemperature'', [ByRef (C_float 0)])]\<rparr>)"
  using telemetry_getter_forwards [of "''getSampleTemperature''" mock_driver
      "fresh ATTODRY2100 COM5"]
  by (simp add: telemetry_getters_def mock_simps four_kelvin)

text \<open>
  C2 as stated fails: on the test double, \<open>getSampleTemperature()\<close> called before
  \<open>begin()\<close> does not fail with \<open>NotInitialized\<close>, and called after \<open>begin()\<close> but
  before \<open>Connect()\<close> does not fail with \<open>NotConnected\<close>; both calls reach the driver's
  entry point and return 4.0.
\<close>

theorem telemetry_getter_before_begin:
  "fst (getSampleTemperature mock_driver (fresh ATTODRY2100 COM5)) \<noteq> Inl NotInitialized \<and>
   getSampleTemperature mock_driver (fresh ATTODRY2100 COM5) =
     (Inr (PyFloat 0x4010000000000000),
      (fresh ATTODRY2100 COM5)\<lparr>calls := [(''getSampleTemperature'', [ByRef (C_float 0)])]\<rparr>) \<and>
   fst (getSampleTemperature mock_driver begun_session) \<noteq> Inl NotConnected \<and>
   getSampleTemperature mock_driver begun_session =
     (Inr (PyFloat 0x4010000000000000),
      begun_session
        \<lparr>calls := [(''begin'', [Py_int 1]), (''getSampleTemperature'', [ByRef (C_float 0)])]\<rparr>)"
  by (simp add: getSampleTemperature_def begun_session_eq mock_simps four_kelvin)

section \<open>The action message\<close>

text \<open>
  C3. The claim fails on the code. On the test double, whose action message is
  \<open>Cooling\<close> and whose error message is \<open>No error\<close>, \<open>getActionMessage()\<close> in a
  connected session calls the driver's entry point \<open>getAttodryErrorMessage\<close> and returns
  \<open>No error\<close>: the error message, not the action message.
\<close>

theorem getActionMessage_returns_error_message:
  "action_message (driver_state connected_session) =
     map byte_of [67, 111, 111, 108, 105, 110, 103] \<and>
   error_message (driver_state connected_session) =
     map byte_of [78, 111, 32, 101, 114, 114, 111, 114] \<and>
   getActionMessage mock_driver 500 connected_session =
     (Inr (PyStr [78, 111, 32, 101, 114, 114, 111, 114]),
      connected_session
        \<lparr>calls := calls connected_session @
           [(''getAttodryErrorMessage'', [ByRef (C_char_array (replicate 500 0)), C_int 500])]\<rparr>)"
  by (simp add: getActionMessage_def connected_session_eq mock_simps create_string_buffer_def
      utf8_decode_def)

section \<open>Variant-restricted operations\<close>

text \<open>
  C4, as amended. For every variant-restricted operation, every driver and every state,
  whatever variant the Facade was constructed for, invoking the operation forwards one
  call to the driver and returns normally, leaving the Facade as it was: the binding never
  fails with \<open>UnsupportedForVariant\<close>. The call goes to the entry point that the
  operation's body names (\<open>restricted_entry\<close>): a toggle calls it without arguments
  and returns \<open>None\<close>; a getter calls it with a reference to a zero \<open>c_float\<close> or
  \<open>c_int\<close> and returns what the driver leaves there. In each case the driver ends in
  the state that entry point gives.
\<close>

theorem variant_restricted_forwards:
  "(name, v) \<in> set variant_restricted \<Longrightarrow>
     call_method D name [] st =
       Some
         (if name \<in> set restricted_toggles then
            (Inr PyNone,
             st\<lparr>driver_state := entry D (restricted_entry name) [] (driver_state st),
                calls := calls st @ [(restricted_entry name, [])]\<rparr>)
          else if name \<in> set restricted_float_getters then
            (Inr (PyFloat (c_float_value
               (fst (entry_out32 D (restricted_entry name) 0 (driver_state st))))),
             st\<lparr>driver_state := snd (entry_out32 D (restricted_entry name) 0 (driver_state st)),
                calls := calls st @ [(restricted_entry name, [ByRef (C_float 0)])]\<rparr>)
          else
            (Inr (PyInt (c_int_value
               (fst (entry_out32 D (restricted_entry name) 0 (driver_state st))))),
             st\<lparr>driver_state := snd (entry_out32 D (restricted_entry name) 0 (driver_state st)),
                calls := calls st @ [(restricted_entry name, [ByRef (C_int 0)])]\<rparr>))"
  unfolding variant_restricted_def
  apply (simp only: list.set insert_iff empty_iff prod.inject simp_thms)
  apply (elim disjE conjE)
  apply (simp_all add: call_simps no_args_def method_defs adry_call_def
      adry_call_byref_c_float_eq adry_call_byref_c_int_eq
      restricted_toggles_def restricted_float_getters_def restricted_entry_def)
  done

text \<open>
  On the test double: \<open>toggleHeliumValve\<close>, documented for the ATTODRY1100 only, on a
  connected ATTODRY2100 Facade, reaches the driver's \<open>toggleHeliumValve\<close>, which opens
  the valve.
\<close>

theorem variant_restricted_forwards_witness:
  "(''toggleHeliumValve'', ATTODRY1100) \<in> set variant_restricted \<and>
   setup_version (facade connected_session) = ATTODRY2100 \<and>
   ''toggleHeliumValve'' \<in> set restricted_toggles \<and>
   restricted_entry ''toggleHeliumValve'' = ''toggleHeliumValve'' \<and>
   call_method mock_driver ''toggleHeliumValve'' [] connected_session =
     Some (Inr PyNone,
       connected_session
         \<lparr>driver_state := mock0\<lparr>started := True, connected := True, helium_valve := True\<rparr>,
          calls := calls connected_session @ [(''toggleHeliumValve'', [])]\<rparr>)"
proof -
  have m: "(''toggleHeliumValve'', ATTODRY1100) \<in> set variant_restricted"
    by (simp add: variant_restricted_def)
  have t: "''toggleHeliumValve'' \<in> set restricted_toggles"
    by (simp add: restricted_toggles_def)
  have e: "restricted_entry ''toggleHeliumValve'' = ''toggleHeliumValve''"
    by (simp add: restricted_entry_def)
  have d: "entry mock_driver ''toggleHeliumValve'' [] (driver_state connected_session) =
      mock0\<lparr>started := True, connected := True, helium_valve := True\<rparr>"
    by (simp add: connected_session_eq mock_simps)
  have f: "setup_version (facade connected_session) = ATTODRY2100"
    by (simp add: connected_session_eq)
  from variant_restricted_forwards [OF m, of mock_driver connected_session] m t e f
  show ?thesis by (simp add: d)
qed

text \<open>
  C4 as stated fails: \<open>toggleHeliumValve()\<close> on a connected ATTODRY2100 Facade does not
  fail with \<open>UnsupportedForVariant\<close>; it returns \<open>None\<close> after the driver's
  \<open>toggleHeliumValve\<close> was called and opened the valve.
\<close>

theorem toggleHeliumValve_on_ATTODRY2100:
  "setup_version (facade connected_session) = ATTODRY2100 \<and>
   (''toggleHeliumValve'', ATTODRY1100) \<in> set variant_restricted \<and>
   fst (toggleHeliumValve mock_driver connected_session) \<noteq> Inl UnsupportedForVariant \<and>
   toggleHeliumValve mock_driver connected_session =
     (Inr PyNone,
      connected_session
        \<lparr>driver_state := mock0\<lparr>started := True, connected := True, helium_valve := True\<rparr>,
         calls := calls connected_session @ [(''toggleHeliumValve'', [])]\<rparr>)"
  by (simp add: toggleHeliumValve_def connected_session_eq mock_simps variant_restricted_def)

section \<open>The user temperature, set and read back\<close>

lemma get_after_set_user_temperature:
  assumes "\<forall>w d. fst (entry_out32 D ''getUserTemperature'' 0
             (entry D ''setUserTemperature'' [C_float w] d)) = w"
  shows "fst (getUserTemperature D (snd (setUserTemperature D V st))) =
           Inr (PyFloat (c_float_value (c_float V)))"
  using assms
  by (simp add: getUserTemperature_def setUserTemperature_def adry_call_def
      adry_call_byref_c_float_eq)

lemma mock_driver_pass_through:
  "\<forall>w d. fst (entry_out32 mock_driver ''getUserTemperature'' 0
             (entry mock_driver ''setUserTemperature'' [C_float w] d)) = w"
  by (simp add: mock_driver_def mock_entry_def mock_entry_out32_def)

lemma half_single: "c_float_value 0x3F000000 = 0x3FE0000000000000" "\<not> f32_is_nan 0x3F000000"
  by (simp_all add: c_float_value_def f32_is_nan_def f32_exp_def f32_frac_def f32_sign_def
      mk_f64_def)

lemma tenth_single:
  "c_float 0x3FB999999999999A = 0x3DCCCCCD" "c_float_value 0x3DCCCCCD = 0x3FB99999A0000000"
  by (simp_all add: c_float_def c_float_value_def f64_exp_def f64_frac_def f64_sign_def
      f32_exp_def f32_frac_def f32_sign_def mk_f32_def mk_f64_def round_shift_def)

text \<open>
  C5, as amended. On a driver that is a pass-through store (the entry point
  \<open>getUserTemperature\<close> reads back the \<open>c_float\<close> that \<open>setUserTemperature\<close> was given),
  \<open>setUserTemperature(V)\<close> and then \<open>getUserTemperature()\<close> return, for every Python
  float \<open>V\<close>, the double that \<open>V\<close> becomes when converted to single precision and back;
  that is \<open>V\<close> unchanged for every \<open>V\<close> that is the value of a single other than a NaN.
\<close>

theorem user_temperature_round_trip:
  "\<forall>w d. fst (entry_out32 D ''getUserTemperature'' 0
             (entry D ''setUserTemperature'' [C_float w] d)) = w \<Longrightarrow>
   fst (getUserTemperature D (snd (setUserTemperature D V st))) =
     Inr (PyFloat (c_float_value (c_float V))) \<and>
   (\<not> f32_is_nan w \<longrightarrow>
      fst (getUserTemperature D (snd (setUserTemperature D (c_float_value w) st))) =
        Inr (PyFloat (c_float_value w)))"
proof (intro conjI impI)
  assume pass: "\<forall>w d. fst (entry_out32 D ''getUserTemperature'' 0
             (entry D ''setUserTemperature'' [C_float w] d)) = w"
  show "fst (getUserTemperature D (snd (setUserTemperature D V st))) =
      Inr (PyFloat (c_float_value (c_float V)))"
    using pass by (rule get_after_set_user_temperature)
  assume "\<not> f32_is_nan w"
  then have "c_float (c_float_value w) = w" by (rule c_float_roundtrip)
  with get_after_set_user_temperature [OF pass, of "c_float_value w" st]
  show "fst (getUserTemperature D (snd (setUserTemperature D (c_float_value w) st))) =
      Inr (PyFloat (c_float_value w))"
    by simp
qed

text \<open>On the test double: 0.5, the value of the single \<open>0x3F000000\<close>, comes back as 0.5.\<close>

theorem user_temperature_round_trip_witness:
  "(\<forall>w d. fst (entry_out32 mock_driver ''getUserTemperature'' 0
             (entry mock_driver ''setUserTemperature'' [C_float w] d)) = w) \<and>
   \<not> f32_is_nan 0x3F000000 \<and> c_float_value 0x3F000000 = 0x3FE0000000000000 \<and>
   fst (getUserTemperature mock_driver
          (snd (setUserTemperature mock_driver (c_float_value 0x3F000000) connected_session))) =
     Inr (PyFloat (c_float_value 0x3F000000))"
  using user_temperature_round_trip [of mock_driver "c_float_value 0x3F000000"
      connected_session "0x3F000000", OF mock_driver_pass_through]
    mock_driver_pass_through half_single
  by blast

text \<open>
  C5 as stated fails: the double nearest to 0.1, \<open>0x3FB999999999999A\<close>, set on the test
  double in a connected session, is read back as \<open>0x3FB99999A0000000\<close>
  (0.100000001490116...), the single nearest to 0.1.
\<close>

theorem user_temperature_tenth_is_rounded:
  "fst (getUserTemperature mock_driver
          (snd (setUserTemperature mock_driver 0x3FB999999999999A connected_session))) =
     Inr (PyFloat 0x3FB99999A0000000) \<and>
   (0x3FB99999A0000000 :: pyfloat) \<noteq> 0x3FB999999999999A"
  by (simp add: get_after_set_user_temperature [OF mock_driver_pass_through] tenth_single)

section \<open>Uploading a calibration curve\<close>





section \<open>The message buffer\<close>


section \<open>The Facade object is never written\<close>

text \<open>
  C8. Every operation leaves the Facade object as it was: after any sequence of method
  calls, with any arguments and on any driver, the object is equal to the one before,
  so \<open>setup_version\<close> and \<open>com_port\<close> still hold the values the constructor
  stored, and the object, which has no other attribute, holds nothing else.
\<close>

theorem operations_keep_facade:
  "call_methods D cs st = Some st' \<Longrightarrow>
     facade st' = facade st \<and>
     (facade st = init_AttoDRY v p \<longrightarrow>
        setup_version (facade st') = v \<and> com_port (facade st') = p)"
proof (induction cs arbitrary: st)
  case Nil
  then show ?case by (simp add: init_AttoDRY_def)
next
  case (Cons c cs)
  obtain name args where c: "c = (name, args)" by (cases c)
  from Cons.prems c obtain r st1 where
    s1: "call_method D name args st = Some (r, st1)" and rest: "call_methods D cs st1 = Some st'"
    by (auto split: option.splits)
  from s1 have "facade st1 = facade st" by (rule call_method_keeps_facade)
  with Cons.IH [OF rest] show ?case by (auto simp add: init_AttoDRY_def)
qed

text \<open>
  On the test double: a connected ATTODRY2100 session on \<open>COM5\<close> sets the user
  temperature and ends; the Facade still holds ATTODRY2100 and \<open>COM5\<close>.
\<close>

theorem operations_keep_facade_witness:
  "\<exists>st'. call_methods mock_driver
           [(''setUserTemperature'', [PyFloat 0x3FE0000000000000]), (''end'', [])]
           connected_session = Some st' \<and>
         facade connected_session = init_AttoDRY ATTODRY2100 COM5 \<and>
         facade st' = facade connected_session \<and>
         setup_version (facade st') = ATTODRY2100 \<and> com_port (facade st') = COM5"
proof -
  have "\<exists>st'. call_methods mock_driver
           [(''setUserTemperature'', [PyFloat 0x3FE0000000000000]), (''end'', [])]
           connected_session = Some st'"
    by (simp add: call_simps no_args_def float_arg_def split_beta)
  then obtain st' where s: "call_methods mock_driver
           [(''setUserTemperature'', [PyFloat 0x3FE0000000000000]), (''end'', [])]
           connected_session = Some st'" ..
  have f: "facade connected_session = init_AttoDRY ATTODRY2100 COM5"
    by (simp add: connected_session_eq init_AttoDRY_def)
  from operations_keep_facade [OF s, of ATTODRY2100 COM5] f s show ?thesis by auto
qed

section \<open>The message getters are one operation; the break-vacuum valve getter\<close>


text \<open>
  C10. \<open>getBreakVac800Valve()\<close> calls the driver's entry point \<open>getTurbopumpFrequency\<close>
  with a reference to a zero \<open>c_int\<close> and returns the 32 bits the driver leaves there,
  read as a signed integer; \<open>getTurbopumpFrequency()\<close> makes the same call with a
  \<open>c_float\<close> and returns the same 32 bits read as a float.
\<close>

theorem getBreakVac800Valve_reads_turbopump_frequency:
  "getBreakVac800Valve D st =
     (Inr (PyInt (c_int_value
        (fst (entry_out32 D ''getTurbopumpFrequency'' 0 (driver_state st))))),
      st\<lparr>driver_state := snd (entry_out32 D ''getTurbopumpFrequency'' 0 (driver_state st)),
         calls := calls st @ [(''getTurbopumpFrequency'', [ByRef (C_int 0)])]\<rparr>) \<and>
   getTurbopumpFrequency D st =
     (Inr (PyFloat (c_float_value
        (fst (entry_out32 D ''getTurbopumpFrequency'' 0 (driver_state st))))),
      st\<lparr>driver_state := snd (entry_out32 D ''getTurbopumpFrequency'' 0 (driver_state st)),
         calls := calls st @ [(''getTurbopumpFrequency'', [ByRef (C_float 0)])]\<rparr>)"
  by (simp add: getBreakVac800Valve_def getTurbopumpFrequency_def
      adry_call_byref_c_int_eq adry_call_byref_c_float_eq)

end
